theory Spec2Isabelle
  imports Main "HOL-Library.Word" "HOL-Library.Signed_Division"
begin

unbundle bit_operations_syntax

section \<open>Machine types and constants of blockio.c\<close>

text \<open>
  The C integer types are fixed-width words: \<open>uint8_t\<close> is \<open>8 word\<close>, \<open>uint16_t\<close> is
  \<open>16 word\<close>, \<open>int32_t\<close>, \<open>uint32_t\<close> and \<open>int\<close> are \<open>32 word\<close>, \<open>int64_t\<close> and
  \<open>uint64_t\<close> are \<open>64 word\<close>. Signed values are read with \<open>sint\<close> and compared with
  \<open><s\<close>; arithmetic that leaves the 32-bit range wraps around in two's complement, as it
  does on the 32-bit targets of the platform. A division by zero and a store outside the
  sector buffer have no defined result and are outcomes of their own (\<open>failure\<close> below).
  The partition number \<open>nr\<close> and the file descriptor are only compared and used as an
  index; they are mathematical integers.
\<close>

type_synonym byte = "8 word"

definition BLOCKIO_DEFAULT_SECTORSIZE :: nat where
  "BLOCKIO_DEFAULT_SECTORSIZE = 512"

definition BLOCKIO_MBR_SIGNATURE :: "16 word" where
  "BLOCKIO_MBR_SIGNATURE = 0xAA55"

definition RESERVED_SECTORS :: "32 word" where
  "RESERVED_SECTORS = 1"

text \<open>The constant \<open>1024 * 1024 / BLOCKIO_DEFAULT_SECTORSIZE\<close> of lines 242 and 298.\<close>

definition sectors_per_mb :: "32 word" where
  "sectors_per_mb = of_nat (1024 * 1024 div BLOCKIO_DEFAULT_SECTORSIZE)"

text \<open>
  The error codes that blockio.c returns, under the names it uses. blockio.h, which gives
  their values, is not among the sources; the functions document them as negative.
\<close>

datatype blockio_error =
    BLOCKIO_ERROR_IO
  | BLOCKIO_ERROR_BLOCKSIZE_UNSUPPORTED
  | BLOCKIO_ERROR_FDISK_DISKFULL
  | BLOCKIO_ERROR_WRONG_MBR_SIGNATURE

text \<open>
  The ways a call can end without a result: it returns one of the error codes, or it runs
  into a division by zero (line 265), or it stores outside the 512-byte sector buffer
  (line 339).
\<close>

datatype failure =
    Returned blockio_error
  | Division_by_zero
  | Out_of_bounds

text \<open>
  The error taxonomy of the specification (its section 7), and the class each error code
  of the source belongs to. No code of the source is in the class \<open>InvalidArgument\<close>.
\<close>

datatype spec_error = IoError | UnsupportedBlockSize | DiskFull | WrongSignature | InvalidArgument

fun spec_error_of :: "blockio_error \<Rightarrow> spec_error" where
  "spec_error_of BLOCKIO_ERROR_IO = IoError"
| "spec_error_of BLOCKIO_ERROR_BLOCKSIZE_UNSUPPORTED = UnsupportedBlockSize"
| "spec_error_of BLOCKIO_ERROR_FDISK_DISKFULL = DiskFull"
| "spec_error_of BLOCKIO_ERROR_WRONG_MBR_SIGNATURE = WrongSignature"

section \<open>The layout of a master boot record (lines 154 to 172)\<close>

text \<open>
  \<open>blockio_mbr_t\<close> is laid over the sector buffer. All its members are arrays of
  \<open>uint8_t\<close>, so there is no padding: \<open>bootcode\<close> is bytes 0 to 445, \<open>partition[i]\<close> is the
  16 bytes from \<open>446 + 16 * i\<close>, \<open>signature\<close> is bytes 510 and 511. Inside an entry
  \<open>type\<close> is byte 4, \<open>startsector\<close> bytes 8 to 11 and \<open>sectors\<close> bytes 12 to 15.
\<close>

definition partition_offset :: "nat \<Rightarrow> nat" where
  "partition_offset i = 446 + 16 * i"

definition type_offset :: "nat \<Rightarrow> nat" where
  "type_offset i = partition_offset i + 4"

definition startsector_offset :: "nat \<Rightarrow> nat" where
  "startsector_offset i = partition_offset i + 8"

definition sectors_offset :: "nat \<Rightarrow> nat" where
  "sectors_offset i = partition_offset i + 12"

definition signature_offset :: nat where
  "signature_offset = 510"

text \<open>
  The byte that \<open>mbr->partition[nr - 1].type\<close> designates, counted from the start of the
  buffer, for any \<open>nr\<close>: the index is not checked at line 339.
\<close>

definition partition_type_address :: "int \<Rightarrow> int" where
  "partition_type_address nr = 446 + 16 * (nr - 1) + 4"

subsection \<open>Little-endian helpers\<close>

text \<open>
  Modelled from the spec: util\_endian.h, which defines \<open>write_little32to16\<close>,
  \<open>write_little16to16\<close>, \<open>read_little32from16\<close> and \<open>read_little16from16\<close>, is not among
  the sources. The specification says that the multi-byte fields are little-endian: the
  least significant byte is stored first. A pointer into the buffer is the buffer and an
  offset.
\<close>

definition write_little32to16 :: "byte list \<Rightarrow> nat \<Rightarrow> 32 word \<Rightarrow> byte list" where
  "write_little32to16 buf off v =
     buf[off := ucast v, off + 1 := ucast (drop_bit 8 v),
         off + 2 := ucast (drop_bit 16 v), off + 3 := ucast (drop_bit 24 v)]"

definition write_little16to16 :: "byte list \<Rightarrow> nat \<Rightarrow> 16 word \<Rightarrow> byte list" where
  "write_little16to16 buf off v = buf[off := ucast v, off + 1 := ucast (drop_bit 8 v)]"

definition read_little32from16 :: "byte list \<Rightarrow> nat \<Rightarrow> 32 word" where
  "read_little32from16 buf off =
     ucast (buf ! off) OR push_bit 8 (ucast (buf ! (off + 1)))
       OR push_bit 16 (ucast (buf ! (off + 2))) OR push_bit 24 (ucast (buf ! (off + 3)))"

definition read_little16from16 :: "byte list \<Rightarrow> nat \<Rightarrow> 16 word" where
  "read_little16from16 buf off = ucast (buf ! off) OR push_bit 8 (ucast (buf ! (off + 1)))"

subsection \<open>The record behind the layout\<close>

text \<open>
  Modelled from the spec: the source has no function that encodes or decodes a master
  boot record; it lays the structure over the buffer and calls the little-endian helpers on
  single fields. The specification (section 4.1) asks for \<open>encode\<close> and \<open>decode\<close> between a
  record and 512 bytes. The record has the fields of \<open>blockio_mbr_partinfo_t\<close> and
  \<open>blockio_mbr_t\<close>, with the three little-endian fields as the numbers the helpers read and
  write; \<open>ptype\<close> is the field \<open>type\<close>. Encoding places the fields at the offsets of the
  structure and writes the numbers with the \<open>write_little\<close> helpers; decoding reads them with
  the \<open>read_little\<close> helpers.
\<close>

record blockio_mbr_partinfo =
  state :: byte
  begin_head :: byte
  begin_cylindersector :: "byte list"
  ptype :: byte
  end_head :: byte
  end_cylindersector :: "byte list"
  startsector :: "32 word"
  sectors :: "32 word"

record blockio_mbr =
  bootcode :: "byte list"
  partition :: "blockio_mbr_partinfo list"
  signature :: "16 word"

definition partinfo_wf :: "blockio_mbr_partinfo \<Rightarrow> bool" where
  "partinfo_wf p \<longleftrightarrow> length (begin_cylindersector p) = 2 \<and> length (end_cylindersector p) = 2"

definition mbr_wf :: "blockio_mbr \<Rightarrow> bool" where
  "mbr_wf m \<longleftrightarrow> length (bootcode m) = 446 \<and> length (partition m) = 4
     \<and> list_all partinfo_wf (partition m)"

definition encode_partinfo :: "blockio_mbr_partinfo \<Rightarrow> byte list" where
  "encode_partinfo p =
     write_little32to16
       (write_little32to16
          ([state p, begin_head p] @ begin_cylindersector p @ [ptype p, end_head p]
             @ end_cylindersector p @ replicate 8 0)
          8 (startsector p))
       12 (sectors p)"

definition decode_partinfo :: "byte list \<Rightarrow> nat \<Rightarrow> blockio_mbr_partinfo" where
  "decode_partinfo buf off =
     \<lparr>state = buf ! off, begin_head = buf ! (off + 1),
      begin_cylindersector = [buf ! (off + 2), buf ! (off + 3)],
      ptype = buf ! (off + 4), end_head = buf ! (off + 5),
      end_cylindersector = [buf ! (off + 6), buf ! (off + 7)],
      startsector = read_little32from16 buf (off + 8),
      sectors = read_little32from16 buf (off + 12)\<rparr>"

definition mbr_encode :: "blockio_mbr \<Rightarrow> byte list" where
  "mbr_encode m =
     write_little16to16
       (bootcode m @ concat (map encode_partinfo (partition m)) @ replicate 2 0)
       signature_offset (signature m)"

definition mbr_decode :: "byte list \<Rightarrow> blockio_mbr" where
  "mbr_decode buf =
     \<lparr>bootcode = take 446 buf,
      partition = map (\<lambda>i. decode_partinfo buf (partition_offset i)) [0, 1, 2, 3],
      signature = read_little16from16 buf signature_offset\<rparr>"

section \<open>The block device\<close>

text \<open>
  Modelled from the spec: devio.h and blockio.h, which declare
  \<open>posix_devctl_blockio_cfg_t\<close> and \<open>posix_devctl_blockio_impl_t\<close>, are not among the
  sources. The specification gives the configuration as three unsigned 32-bit numbers and
  the capability as \<open>read_sectors\<close>, \<open>write_sectors\<close> and an optional \<open>sanity_check\<close>.

  The device is a state of type \<open>'d\<close>. \<open>read_sectors dev lba count\<close> gives the number it
  returns, the contents of the caller's sector buffer after the call, and the device
  after the call; \<open>write_sectors dev buf lba count\<close> gives the number it returns and the
  device after the call. \<open>sanity_check\<close> is \<open>None\<close> for the null pointer.
\<close>

record posix_devctl_blockio_cfg =
  blksize :: "32 word"
  blktotal :: "32 word"
  blkstart :: "32 word"

record 'd posix_devctl_blockio_impl =
  read_sectors :: "'d \<Rightarrow> 32 word \<Rightarrow> nat \<Rightarrow> int \<times> byte list \<times> 'd"
  write_sectors :: "'d \<Rightarrow> byte list \<Rightarrow> 32 word \<Rightarrow> nat \<Rightarrow> int \<times> 'd"
  sanity_check :: "('d \<Rightarrow> 32 word \<Rightarrow> 32 word \<Rightarrow> 32 word \<Rightarrow> bool) option"

text \<open>
  Every call that leaves blockio.c is recorded, in order: the two \<open>posix_devctl\<close> lookups
  and the calls through the capability.
\<close>

datatype io_call =
    Devctl_impl
  | Devctl_cfg
  | Read_sectors "32 word" nat
  | Write_sectors "byte list" "32 word" nat
  | Sanity_check "32 word" "32 word" "32 word"

text \<open>
  The system a call runs in: what \<open>posix_devctl\<close> answers for a file descriptor (\<open>None\<close>
  when it returns a negative number), the device, and the calls made so far.
\<close>

record 'd system =
  devctl_impl :: "int \<Rightarrow> 'd posix_devctl_blockio_impl option"
  devctl_cfg :: "int \<Rightarrow> posix_devctl_blockio_cfg option"
  device :: 'd
  io_log :: "io_call list"

definition log_call :: "io_call \<Rightarrow> 'd system \<Rightarrow> 'd system" where
  "log_call c sys = sys\<lparr>io_log := io_log sys @ [c]\<rparr>"

text \<open>The calls made between two states of the system.\<close>

definition calls_made :: "'d system \<Rightarrow> 'd system \<Rightarrow> io_call list" where
  "calls_made sys sys' = drop (length (io_log sys)) (io_log sys')"

text \<open>The sectors a sequence of calls reads or writes.\<close>

fun sector_lbas :: "io_call list \<Rightarrow> 32 word list" where
  "sector_lbas [] = []"
| "sector_lbas (Read_sectors lba n # cs) = lba # sector_lbas cs"
| "sector_lbas (Write_sectors buf lba n # cs) = lba # sector_lbas cs"
| "sector_lbas (c # cs) = sector_lbas cs"

section \<open>blockio\_write\_partitiontable (lines 208 to 299)\<close>

subsection \<open>The sizing pass (lines 228 to 268)\<close>

text \<open>
  The first loop (lines 238 to 249) visits \<open>size[0]\<close> to \<open>size[3]\<close> in order; the step for
  \<open>size[i]\<close> reads and writes only that entry, \<open>sectorsleft\<close> and \<open>relativetotal\<close>. The
  function gives the array, \<open>sectorsleft\<close> and \<open>relativetotal\<close> after the loop.
\<close>

fun reserve_absolute ::
  "32 word list \<Rightarrow> 32 word \<Rightarrow> 32 word \<Rightarrow> 32 word list \<times> 32 word \<times> 32 word" where
  "reserve_absolute [] sectorsleft relativetotal = ([], sectorsleft, relativetotal)"
| "reserve_absolute (s # rest) sectorsleft relativetotal =
     (if 0 <s s then
        (let s' = s * sectors_per_mb in
         case reserve_absolute rest (sectorsleft - s') relativetotal of
           (rest', sl', rt') \<Rightarrow> (s' # rest', sl', rt'))
      else
        (case reserve_absolute rest sectorsleft (relativetotal - s) of
           (rest', sl', rt') \<Rightarrow> (s # rest', sl', rt')))"

text \<open>Division of \<open>int64_t\<close>: the quotient is truncated towards zero.\<close>

definition sdiv64 :: "64 word \<Rightarrow> 64 word \<Rightarrow> 64 word" where
  "sdiv64 a b = word_of_int (sint a sdiv sint b)"

text \<open>Division of \<open>int32_t\<close>, likewise.\<close>

definition sdiv32 :: "32 word \<Rightarrow> 32 word \<Rightarrow> 32 word" where
  "sdiv32 a b = word_of_int (sint a sdiv sint b)"

text \<open>
  The right-hand side of line 265,
  \<open>- (int32_t)((((int64_t)sectorstodivide) * size[i] / relativetotal) & 0xFFFFFFFF)\<close>:
  \<open>size[i]\<close> and \<open>relativetotal\<close> are sign-extended to 64 bits, the product and the
  quotient are 64-bit, the mask keeps the low 32 bits, the cast takes them as an
  \<open>int32_t\<close>, which is negated.
\<close>

definition relative_share :: "64 word \<Rightarrow> 32 word \<Rightarrow> 32 word \<Rightarrow> 32 word" where
  "relative_share sectorstodivide s relativetotal =
     - ucast (sdiv64 (sectorstodivide * scast s) (scast relativetotal) AND 0xFFFFFFFF)"

text \<open>
  The second loop (lines 261 to 268), with \<open>sectorstodivide\<close> fixed before it. The
  division at line 265 has no result when \<open>relativetotal\<close> is zero.
\<close>

fun divide_relative ::
  "32 word list \<Rightarrow> 64 word \<Rightarrow> 32 word \<Rightarrow> 32 word \<Rightarrow> failure + 32 word list \<times> 32 word" where
  "divide_relative [] sectorstodivide relativetotal sectorsleft = Inr ([], sectorsleft)"
| "divide_relative (s # rest) sectorstodivide relativetotal sectorsleft =
     (if s <s 0 then
        (if relativetotal = 0 then Inl Division_by_zero
         else
           (let s' = relative_share sectorstodivide s relativetotal in
            case divide_relative rest sectorstodivide relativetotal (sectorsleft - s') of
              Inl f \<Rightarrow> Inl f
            | Inr (rest', sl') \<Rightarrow> Inr (s' # rest', sl')))
      else
        (case divide_relative rest sectorstodivide relativetotal sectorsleft of
           Inl f \<Rightarrow> Inl f
         | Inr (rest', sl') \<Rightarrow> Inr (s # rest', sl')))"

text \<open>
  Lines 228 to 268. A failure comes with the contents of the caller's array at that
  point; a result is the resolved array and the final \<open>sectorsleft\<close>.
\<close>

definition sizing_pass ::
  "posix_devctl_blockio_cfg \<Rightarrow> 32 word list
     \<Rightarrow> failure \<times> 32 word list + 32 word list \<times> 32 word" where
  "sizing_pass cfg sizes =
     (let sectorsleft = blktotal cfg - RESERVED_SECTORS in
      if blksize cfg \<noteq> of_nat BLOCKIO_DEFAULT_SECTORSIZE
      then Inl (Returned BLOCKIO_ERROR_BLOCKSIZE_UNSUPPORTED, sizes)
      else
        (case reserve_absolute sizes sectorsleft 0 of
           (size1, sectorsleft1, relativetotal) \<Rightarrow>
             if sectorsleft1 <s 0 \<or> (sectorsleft1 = 0 \<and> relativetotal \<noteq> 0)
             then Inl (Returned BLOCKIO_ERROR_FDISK_DISKFULL, size1)
             else
               (case divide_relative size1 (scast sectorsleft1) relativetotal sectorsleft1 of
                  Inl f \<Rightarrow> Inl (f, size1)
                | Inr (size2, sectorsleft2) \<Rightarrow> Inr (size2, sectorsleft2))))"

text \<open>
  Three quantities of a size specification, as mathematical integers: the absolute
  (positive) slots converted to sectors, the sum of the magnitudes of the negative slots,
  and the sum of the shares \<open>floor (S * |weight| / W)\<close> of the negative slots.
\<close>

definition absolute_sectors :: "32 word list \<Rightarrow> int" where
  "absolute_sectors ss = (\<Sum>s\<leftarrow>ss. if 0 <s s then sint s * 2048 else 0)"

definition relative_weights :: "32 word list \<Rightarrow> int" where
  "relative_weights ss = (\<Sum>s\<leftarrow>ss. if s <s 0 then - sint s else 0)"

definition relative_shares :: "int \<Rightarrow> int \<Rightarrow> 32 word list \<Rightarrow> int" where
  "relative_shares S W ss = (\<Sum>s\<leftarrow>ss. if s <s 0 then S * (- sint s) div W else 0)"

subsection \<open>Building and writing the table (lines 270 to 298)\<close>

text \<open>The third loop (lines 274 to 287), from entry \<open>i\<close> on, with the running \<open>start\<close>.\<close>

fun write_entries :: "32 word list \<Rightarrow> nat \<Rightarrow> 32 word \<Rightarrow> byte list \<Rightarrow> byte list" where
  "write_entries [] i start buf = buf"
| "write_entries (s # rest) i start buf =
     (if s \<noteq> 0 then
        write_entries rest (Suc i) (start + s)
          (write_little32to16 (write_little32to16 buf (startsector_offset i) start)
             (sectors_offset i) s)
      else write_entries rest (Suc i) start buf)"

text \<open>Lines 271 to 291: the zeroed buffer, the entries, the signature.\<close>

definition build_mbr :: "posix_devctl_blockio_cfg \<Rightarrow> 32 word list \<Rightarrow> byte list" where
  "build_mbr cfg sizes =
     write_little16to16
       (write_entries sizes 0 (blkstart cfg + RESERVED_SECTORS)
          (replicate BLOCKIO_DEFAULT_SECTORSIZE 0))
       signature_offset BLOCKIO_MBR_SIGNATURE"

text \<open>
  The whole function. It gives the value it returns, the caller's \<open>size\<close> array after
  the call (the array is \<open>sizes\<close> here, \<open>size\<close> being a constant of HOL), and the system
  after the call. \<open>Inl\<close> is a return of one of the error codes (or a division by zero);
  \<open>Inr v\<close> is the return of line 298, the unallocated space in MB as an \<open>int32_t\<close>. The C
  function returns both as one \<open>int\<close>: a negative \<open>v\<close> reads as an error to the caller.
\<close>

definition blockio_write_partitiontable ::
  "'d system \<Rightarrow> int \<Rightarrow> 32 word list \<Rightarrow> (failure + 32 word) \<times> 32 word list \<times> 'd system" where
  "blockio_write_partitiontable sys fd sizes =
     (let sys1 = log_call Devctl_impl sys in
      case devctl_impl sys fd of
        None \<Rightarrow> (Inl (Returned BLOCKIO_ERROR_IO), sizes, sys1)
      | Some impl \<Rightarrow>
          (let sys2 = log_call Devctl_cfg sys1 in
           case devctl_cfg sys fd of
             None \<Rightarrow> (Inl (Returned BLOCKIO_ERROR_IO), sizes, sys2)
           | Some cfg \<Rightarrow>
               (case sizing_pass cfg sizes of
                  Inl (f, size1) \<Rightarrow> (Inl f, size1, sys2)
                | Inr (size2, sectorsleft) \<Rightarrow>
                    (let buf = build_mbr cfg size2 in
                     case write_sectors impl (device sys2) buf 0 1 of
                       (n, dev') \<Rightarrow>
                         (let sys3 = log_call (Write_sectors buf 0 1) (sys2\<lparr>device := dev'\<rparr>) in
                          if n \<noteq> 1 then (Inl (Returned BLOCKIO_ERROR_IO), size2, sys3)
                          else (Inr (sdiv32 sectorsleft sectors_per_mb), size2, sys3))))))"

section \<open>blockio\_write\_partitiontype (lines 317 to 347)\<close>

text \<open>
  It gives the value it returns (\<open>Inr ()\<close> for 0) and the system after the call. The
  store at line 339 goes to the byte \<open>partition_type_address nr\<close> of the buffer, whatever
  \<open>nr\<close> is; outside the 512 bytes of the buffer it overwrites other memory.
\<close>

definition blockio_write_partitiontype ::
  "'d system \<Rightarrow> int \<Rightarrow> int \<Rightarrow> byte \<Rightarrow> (failure + unit) \<times> 'd system" where
  "blockio_write_partitiontype sys fd nr type =
     (let sys1 = log_call Devctl_impl sys in
      case devctl_impl sys fd of
        None \<Rightarrow> (Inl (Returned BLOCKIO_ERROR_IO), sys1)
      | Some impl \<Rightarrow>
          (let sys2 = log_call Devctl_cfg sys1 in
           case devctl_cfg sys fd of
             None \<Rightarrow> (Inl (Returned BLOCKIO_ERROR_IO), sys2)
           | Some cfg \<Rightarrow>
               (case read_sectors impl (device sys2) (blkstart cfg) 1 of
                  (r, buf, dev1) \<Rightarrow>
                    (let sys3 = log_call (Read_sectors (blkstart cfg) 1) (sys2\<lparr>device := dev1\<rparr>) in
                     if r \<noteq> 1 then (Inl (Returned BLOCKIO_ERROR_IO), sys3)
                     else if partition_type_address nr < 0
                             \<or> int BLOCKIO_DEFAULT_SECTORSIZE \<le> partition_type_address nr
                     then (Inl Out_of_bounds, sys3)
                     else
                       (let buf' = buf[nat (partition_type_address nr) := type AND 0xFF] in
                        case write_sectors impl dev1 buf' (blkstart cfg) 1 of
                          (w, dev2) \<Rightarrow>
                            (let sys4 = log_call (Write_sectors buf' (blkstart cfg) 1)
                                          (sys3\<lparr>device := dev2\<rparr>) in
                             if w \<noteq> 1 then (Inl (Returned BLOCKIO_ERROR_IO), sys4)
                             else (Inr (), sys4)))))))"

section \<open>blockio\_select\_partition (lines 369 to 444)\<close>

text \<open>
  The two output pointers are \<open>None\<close> when null and \<open>Some v\<close> when they point to a cell
  holding \<open>v\<close>; the two cells are distinct. The function gives the value it returns (the
  type byte of the entry), the two cells after the call, and the system after the call.
\<close>

definition blockio_select_partition ::
  "'d system \<Rightarrow> int \<Rightarrow> int \<Rightarrow> 32 word option \<Rightarrow> 32 word option
     \<Rightarrow> (failure + byte) \<times> 32 word option \<times> 32 word option \<times> 'd system" where
  "blockio_select_partition sys fd nr blkstart_p blkcount_p =
     (if blkstart_p = None \<or> blkcount_p = None
      then (Inl (Returned BLOCKIO_ERROR_IO), blkstart_p, blkcount_p, sys)
      else if nr < 1 \<or> nr > 4
      then (Inl (Returned BLOCKIO_ERROR_IO), Some 0, Some 0, sys)
      else
        (let sys1 = log_call Devctl_impl sys in
         case devctl_impl sys fd of
           None \<Rightarrow> (Inl (Returned BLOCKIO_ERROR_IO), Some 0, Some 0, sys1)
         | Some impl \<Rightarrow>
             (let sys2 = log_call Devctl_cfg sys1 in
              case devctl_cfg sys fd of
                None \<Rightarrow> (Inl (Returned BLOCKIO_ERROR_IO), Some 0, Some 0, sys2)
              | Some cfg \<Rightarrow>
                  (case read_sectors impl (device sys2) (blkstart cfg) 1 of
                     (r, buf, dev1) \<Rightarrow>
                       (let sys3 = log_call (Read_sectors (blkstart cfg) 1)
                                     (sys2\<lparr>device := dev1\<rparr>) in
                        if r \<noteq> 1
                        then (Inl (Returned BLOCKIO_ERROR_IO), Some 0, Some 0, sys3)
                        else if read_little16from16 buf signature_offset \<noteq> BLOCKIO_MBR_SIGNATURE
                        then (Inl (Returned BLOCKIO_ERROR_WRONG_MBR_SIGNATURE), Some 0, Some 0, sys3)
                        else
                          (let i = nat (nr - 1);
                               start = read_little32from16 buf (startsector_offset i);
                               count = read_little32from16 buf (sectors_offset i)
                           in case sanity_check impl of
                                Some check \<Rightarrow>
                                  (let sys4 = log_call (Sanity_check start count (blktotal cfg)) sys3 in
                                   if \<not> check dev1 start count (blktotal cfg)
                                   then (Inl (Returned BLOCKIO_ERROR_IO), Some 0, Some 0, sys4)
                                   else (Inr (buf ! type_offset i), Some start, Some count, sys4))
                              | None \<Rightarrow>
                                  if start > blktotal cfg \<or> count > blktotal cfg - start
                                  then (Inl (Returned BLOCKIO_ERROR_IO), Some 0, Some 0, sys3)
                                  else (Inr (buf ! type_offset i), Some start, Some count, sys3)))))))"

section \<open>A disk in memory\<close>

text \<open>
  A device that keeps one sector per address and always transfers what it is asked to,
  used to run the three functions on concrete inputs.
\<close>

type_synonym ramdisk = "32 word \<Rightarrow> byte list"

definition ramdisk_read :: "ramdisk \<Rightarrow> 32 word \<Rightarrow> nat \<Rightarrow> int \<times> byte list \<times> ramdisk" where
  "ramdisk_read d lba n = (int n, d lba, d)"

definition ramdisk_write :: "ramdisk \<Rightarrow> byte list \<Rightarrow> 32 word \<Rightarrow> nat \<Rightarrow> int \<times> ramdisk" where
  "ramdisk_write d buf lba n = (int n, d(lba := buf))"

definition ramdisk_impl :: "ramdisk posix_devctl_blockio_impl" where
  "ramdisk_impl =
     \<lparr>read_sectors = ramdisk_read, write_sectors = ramdisk_write, sanity_check = None\<rparr>"

definition blank_disk :: ramdisk where
  "blank_disk = (\<lambda>lba. replicate 512 0)"

definition ramdisk_system :: "posix_devctl_blockio_cfg \<Rightarrow> ramdisk \<Rightarrow> ramdisk system" where
  "ramdisk_system cfg d =
     \<lparr>devctl_impl = (\<lambda>fd. Some ramdisk_impl), devctl_cfg = (\<lambda>fd. Some cfg),
      device = d, io_log = []\<rparr>"

text \<open>A system in which both \<open>posix_devctl\<close> lookups fail.\<close>

definition absent_system :: "ramdisk system" where
  "absent_system =
     \<lparr>devctl_impl = (\<lambda>fd. None), devctl_cfg = (\<lambda>fd. None), device = blank_disk, io_log = []\<rparr>"

text \<open>A device whose \<open>write_sectors\<close> always fails.\<close>

definition readonly_impl :: "ramdisk posix_devctl_blockio_impl" where
  "readonly_impl =
     \<lparr>read_sectors = ramdisk_read, write_sectors = (\<lambda>d buf lba n. (- 1, d)),
      sanity_check = None\<rparr>"

definition readonly_system :: "posix_devctl_blockio_cfg \<Rightarrow> ramdisk \<Rightarrow> ramdisk system" where
  "readonly_system cfg d =
     \<lparr>devctl_impl = (\<lambda>fd. Some readonly_impl), devctl_cfg = (\<lambda>fd. Some cfg),
      device = d, io_log = []\<rparr>"

text \<open>Configurations and records for concrete runs.\<close>

definition cfg_small :: posix_devctl_blockio_cfg where
  "cfg_small = \<lparr>blksize = 512, blktotal = 1000, blkstart = 0\<rparr>"

definition cfg_tiny :: posix_devctl_blockio_cfg where
  "cfg_tiny = \<lparr>blksize = 512, blktotal = 11, blkstart = 0\<rparr>"

definition cfg_512mb :: posix_devctl_blockio_cfg where
  "cfg_512mb = \<lparr>blksize = 512, blktotal = 1048576, blkstart = 0\<rparr>"

definition cfg_layered :: posix_devctl_blockio_cfg where
  "cfg_layered = \<lparr>blksize = 512, blktotal = 1048576, blkstart = 64\<rparr>"

definition partinfo_example :: blockio_mbr_partinfo where
  "partinfo_example =
     \<lparr>state = 0, begin_head = 0, begin_cylindersector = [0, 0], ptype = 0x83, end_head = 0,
      end_cylindersector = [0, 0], startsector = 1, sectors = 20480\<rparr>"

definition partinfo_unused :: blockio_mbr_partinfo where
  "partinfo_unused =
     \<lparr>state = 0, begin_head = 0, begin_cylindersector = [0, 0], ptype = 0, end_head = 0,
      end_cylindersector = [0, 0], startsector = 0, sectors = 0\<rparr>"

definition mbr_example :: blockio_mbr where
  "mbr_example =
     \<lparr>bootcode = replicate 446 0,
      partition = [partinfo_example, partinfo_unused, partinfo_unused, partinfo_unused],
      signature = 0xAA55\<rparr>"


section \<open>The codec\<close>

subsection \<open>Little-endian fields\<close>

lemma le32_bytes:
  "(ucast (ucast (v::32 word) :: byte) :: 32 word) OR push_bit 8 (ucast (ucast (drop_bit 8 v) :: byte))
    OR push_bit 16 (ucast (ucast (drop_bit 16 v) :: byte))
    OR push_bit 24 (ucast (ucast (drop_bit 24 v) :: byte)) = v"
proof (rule bit_word_eqI)
  fix n assume "n < LENGTH(32)"
  then consider "n < 8" | "8 \<le> n" "n < 16" | "16 \<le> n" "n < 24" | "24 \<le> n" "n < 32"
    by fastforce
  then show "bit (ucast (ucast v :: byte) OR push_bit 8 (ucast (ucast (drop_bit 8 v) :: byte))
    OR push_bit 16 (ucast (ucast (drop_bit 16 v) :: byte))
    OR push_bit 24 (ucast (ucast (drop_bit 24 v) :: byte)) :: 32 word) n = bit v n"
    by cases (auto simp add: bit_simps)
qed

lemma le16_bytes:
  "(ucast (ucast (v::16 word) :: byte) :: 16 word) OR push_bit 8 (ucast (ucast (drop_bit 8 v) :: byte)) = v"
  by (rule bit_word_eqI) (auto simp add: bit_simps)

lemma length_write_little32to16 [simp]:
  "length (write_little32to16 buf off v) = length buf"
  by (simp add: write_little32to16_def)

lemma length_write_little16to16 [simp]:
  "length (write_little16to16 buf off v) = length buf"
  by (simp add: write_little16to16_def)

lemma nth_write_little32to16_other:
  "j < off \<or> off + 4 \<le> j \<Longrightarrow> write_little32to16 buf off v ! j = buf ! j"
  by (auto simp add: write_little32to16_def)

lemma nth_write_little16to16_other:
  "j < off \<or> off + 2 \<le> j \<Longrightarrow> write_little16to16 buf off v ! j = buf ! j"
  by (auto simp add: write_little16to16_def)

lemma read_write_little32:
  "off + 3 < length buf \<Longrightarrow> read_little32from16 (write_little32to16 buf off v) off = v"
  by (simp add: read_little32from16_def write_little32to16_def le32_bytes)

lemma read_write_little16:
  "off + 1 < length buf \<Longrightarrow> read_little16from16 (write_little16to16 buf off v) off = v"
  by (simp add: read_little16from16_def write_little16to16_def le16_bytes)

lemma read_little32_write32_other:
  "off' + 4 \<le> off \<or> off + 4 \<le> off' \<Longrightarrow>
     read_little32from16 (write_little32to16 buf off' v) off = read_little32from16 buf off"
  by (auto simp add: read_little32from16_def nth_write_little32to16_other)

lemma read_little32_write16_other:
  "off' + 2 \<le> off \<or> off + 4 \<le> off' \<Longrightarrow>
     read_little32from16 (write_little16to16 buf off' v) off = read_little32from16 buf off"
  by (auto simp add: read_little32from16_def nth_write_little16to16_other)

lemma length_encode_partinfo:
  "partinfo_wf p \<Longrightarrow> length (encode_partinfo p) = 16"
  by (simp add: encode_partinfo_def partinfo_wf_def)

lemma list2: "length xs = 2 \<Longrightarrow> \<exists>a b. xs = [a, b]"
  by (cases xs; cases "tl xs") auto


lemma read_little32from16_append:
  "off + 3 < length xs \<Longrightarrow> read_little32from16 (xs @ ys) off = read_little32from16 xs off"
  by (simp add: read_little32from16_def nth_append)

lemma read_little32from16_prefix:
  "read_little32from16 (xs @ ys) (length xs + off) = read_little32from16 ys off"
  by (simp add: read_little32from16_def nth_append add.assoc)

lemma decode_encode_partinfo:
  assumes "partinfo_wf p"
  shows "decode_partinfo (encode_partinfo p @ rest) 0 = p"
proof -
  obtain a b where bc: "begin_cylindersector p = [a, b]"
    using assms list2 [of "begin_cylindersector p"] by (auto simp add: partinfo_wf_def)
  obtain c d where ec: "end_cylindersector p = [c, d]"
    using assms list2 [of "end_cylindersector p"] by (auto simp add: partinfo_wf_def)
  let ?raw = "[state p, begin_head p] @ begin_cylindersector p @ [ptype p, end_head p]
             @ end_cylindersector p @ replicate 8 0"
  have len: "length (encode_partinfo p) = 16"
    using assms by (rule length_encode_partinfo)
  have low: "(encode_partinfo p @ rest) ! j = ?raw ! j" if "j < 8" for j
    using that len by (simp add: nth_append encode_partinfo_def nth_write_little32to16_other)
  have s: "read_little32from16 (encode_partinfo p @ rest) 8 = startsector p"
    using len
    by (simp add: read_little32from16_append)
       (simp add: encode_partinfo_def read_little32_write32_other read_write_little32 bc ec)
  have t: "read_little32from16 (encode_partinfo p @ rest) 12 = sectors p"
    using len
    by (simp add: read_little32from16_append)
       (simp add: encode_partinfo_def read_write_little32 bc ec)
  show ?thesis
    by (rule blockio_mbr_partinfo.equality)
       (simp_all add: decode_partinfo_def s t low bc ec)
qed

lemma decode_partinfo_prefix:
  "decode_partinfo (xs @ ys) (length xs + off) = decode_partinfo ys off"
  by (simp add: decode_partinfo_def read_little32from16_prefix nth_append add.assoc)

lemma decode_partinfo_write16_other:
  "off + 16 \<le> off' \<Longrightarrow>
     decode_partinfo (write_little16to16 buf off' v) off = decode_partinfo buf off"
  by (simp add: decode_partinfo_def read_little32_write16_other nth_write_little16to16_other)

lemma list4: "length xs = 4 \<Longrightarrow> \<exists>a b c d. xs = [a, b, c, d]"
  by (cases xs; cases "tl xs"; cases "tl (tl xs)"; cases "tl (tl (tl xs))") auto


text \<open>
  C8: encoding a well-formed record (446 bytes of boot code, four entries, two-byte
  geometry fields) gives 512 bytes, and decoding them gives the record back, boot code
  included; a 32-bit and a 16-bit field written by the \<open>write_little\<close> helpers is read back
  unchanged by the \<open>read_little\<close> helpers, for every value.
\<close>

theorem mbr_roundtrip:
  "(mbr_wf m \<longrightarrow> length (mbr_encode m) = 512 \<and> mbr_decode (mbr_encode m) = m)
   \<and> (off + 3 < length buf \<longrightarrow> read_little32from16 (write_little32to16 buf off v) off = v)
   \<and> (off' + 1 < length buf' \<longrightarrow>
        read_little16from16 (write_little16to16 buf' off' w) off' = w)"
proof (intro conjI impI)
  assume wf: "mbr_wf m"
  then obtain p0 p1 p2 p3 where ps: "partition m = [p0, p1, p2, p3]"
    using list4 [of "partition m"] by (auto simp add: mbr_wf_def)
  have wfs: "partinfo_wf p0" "partinfo_wf p1" "partinfo_wf p2" "partinfo_wf p3"
    using wf by (simp_all add: mbr_wf_def ps)
  have lens: "length (encode_partinfo p0) = 16" "length (encode_partinfo p1) = 16"
      "length (encode_partinfo p2) = 16" "length (encode_partinfo p3) = 16"
    using wfs by (simp_all add: length_encode_partinfo)
  have lb: "length (bootcode m) = 446"
    using wf by (simp add: mbr_wf_def)
  let ?E = "encode_partinfo p0 @ encode_partinfo p1 @ encode_partinfo p2 @ encode_partinfo p3
              @ replicate 2 0"
  let ?B = "bootcode m @ ?E"
  have enc: "mbr_encode m = write_little16to16 ?B signature_offset (signature m)"
    by (simp add: mbr_encode_def ps)
  show len: "length (mbr_encode m) = 512"
    by (simp add: enc lens lb)
  have d0: "decode_partinfo ?B 446 = p0"
    using decode_partinfo_prefix [of "bootcode m" ?E 0] decode_encode_partinfo [OF wfs(1)]
    by (simp add: lb)
  have d1: "decode_partinfo ?B 462 = p1"
    using decode_partinfo_prefix [of "bootcode m @ encode_partinfo p0" _ 0]
      decode_encode_partinfo [OF wfs(2)]
    by (simp add: lb lens)
  have d2: "decode_partinfo ?B 478 = p2"
    using decode_partinfo_prefix [of "bootcode m @ encode_partinfo p0 @ encode_partinfo p1" _ 0]
      decode_encode_partinfo [OF wfs(3)]
    by (simp add: lb lens)
  have d3: "decode_partinfo ?B 494 = p3"
    using decode_partinfo_prefix
        [of "bootcode m @ encode_partinfo p0 @ encode_partinfo p1 @ encode_partinfo p2" _ 0]
      decode_encode_partinfo [OF wfs(4)]
    by (simp add: lb lens)
  have sg: "read_little16from16 (mbr_encode m) signature_offset = signature m"
    by (simp add: enc read_write_little16 signature_offset_def lens lb)
  have bc: "take 446 (mbr_encode m) = bootcode m"
    by (simp add: enc write_little16to16_def signature_offset_def lb)
  show "mbr_decode (mbr_encode m) = m"
    by (rule blockio_mbr.equality)
       (simp_all add: mbr_decode_def sg bc ps,
        simp_all add: enc partition_offset_def signature_offset_def decode_partinfo_write16_other d0 d1 d2 d3)
next
  assume "off + 3 < length buf"
  then show "read_little32from16 (write_little32to16 buf off v) off = v"
    by (rule read_write_little32)
next
  assume "off' + 1 < length buf'"
  then show "read_little16from16 (write_little16to16 buf' off' w) off' = w"
    by (rule read_write_little16)
qed

theorem mbr_roundtrip_witness:
  "mbr_wf mbr_example
   \<and> length (mbr_encode mbr_example) = 512
   \<and> mbr_decode (mbr_encode mbr_example) = mbr_example
   \<and> 8 + 3 < length (replicate 16 (0 :: byte))
   \<and> read_little32from16 (write_little32to16 (replicate 16 0) 8 0x12345678) 8 = 0x12345678
   \<and> 14 + 1 < length (replicate 16 (0 :: byte))
   \<and> read_little16from16 (write_little16to16 (replicate 16 0) 14 0xAA55) 14 = 0xAA55"
  using mbr_roundtrip [of mbr_example 8 "replicate 16 0" "0x12345678" 14 "replicate 16 0" "0xAA55"]
  by (simp add: mbr_wf_def partinfo_wf_def mbr_example_def partinfo_example_def
        partinfo_unused_def)

section \<open>The sizing pass\<close>

subsection \<open>The two loops in closed form\<close>

lemma sectors_per_mb_eq [simp]: "sectors_per_mb = 2048"
  by (simp add: sectors_per_mb_def BLOCKIO_DEFAULT_SECTORSIZE_def)

lemma reserve_absolute_eq:
  "reserve_absolute ss sl rt =
     (map (\<lambda>s. if 0 <s s then s * 2048 else s) ss,
      sl - sum_list (map (\<lambda>s. if 0 <s s then s * 2048 else 0) ss),
      rt - sum_list (map (\<lambda>s. if 0 <s s then 0 else s) ss))"
  by (induction ss arbitrary: sl rt) (simp_all add: Let_def algebra_simps)

lemma divide_relative_eq:
  "relativetotal \<noteq> 0 \<or> (\<forall>s \<in> set ss. \<not> s <s 0) \<Longrightarrow>
   divide_relative ss std relativetotal sl =
     Inr (map (\<lambda>s. if s <s 0 then relative_share std s relativetotal else s) ss,
          sl - sum_list (map (\<lambda>s. if s <s 0 then relative_share std s relativetotal else 0) ss))"
  by (induction ss arbitrary: sl) (auto simp add: Let_def algebra_simps)

lemma divide_relative_fault:
  "\<exists>s \<in> set ss. s <s 0 \<Longrightarrow> divide_relative ss std 0 sl = Inl Division_by_zero"
proof (induction ss arbitrary: sl)
  case Nil
  then show ?case by simp
next
  case (Cons a ss)
  show ?case
  proof (cases "a <s 0")
    case True
    then show ?thesis by simp
  next
    case False
    with Cons.prems have "\<exists>s \<in> set ss. s <s 0" by auto
    then have "divide_relative ss std 0 sl = Inl Division_by_zero" by (rule Cons.IH)
    with False show ?thesis by simp
  qed
qed

lemma ucast_low32: "(ucast ((w :: 64 word) AND 0xFFFFFFFF) :: 32 word) = ucast w"
proof -
  have m: "(0xFFFFFFFF :: 64 word) = mask 32"
    by (simp add: mask_eq_exp_minus_1)
  show ?thesis
    unfolding m by (rule bit_word_eqI) (auto simp add: bit_simps)
qed

lemma sint32_bounds: "- 2147483648 \<le> sint (w :: 32 word)" "sint (w :: 32 word) < 2147483648"
  using sint_ge [of w] sint_lt [of w] by simp_all

lemma sint_word_of_int_64:
  "- (2 ^ 63) \<le> k \<Longrightarrow> k < 2 ^ 63 \<Longrightarrow> sint (word_of_int k :: 64 word) = k"
  by (simp add: sint_sbintrunc' signed_take_bit_int_eq_self)

lemma sint_word_of_int_32:
  "- (2 ^ 31) \<le> k \<Longrightarrow> k < 2 ^ 31 \<Longrightarrow> sint (word_of_int k :: 32 word) = k"
  by (simp add: sint_sbintrunc' signed_take_bit_int_eq_self)

lemma relative_share_exact:
  fixes sl s rt :: "32 word"
  assumes "0 \<le> sint sl" and "sint s < 0" and "0 < sint rt"
  shows "relative_share (scast sl) s rt = word_of_int (sint sl * (- sint s) div sint rt)"
proof -
  let ?S = "sint sl" and ?w = "- sint s" and ?R = "sint rt"
  have bS: "?S < 2147483648" by (rule sint32_bounds)
  have bw: "?w \<le> 2147483648" using sint32_bounds(1) [of s] by simp
  have "?S * ?w \<le> 2147483648 * 2147483648"
    using assms bS bw by (intro mult_mono) simp_all
  moreover have nonpos: "?S * sint s \<le> 0"
    using assms by (simp add: mult_nonneg_nonpos)
  ultimately have prod_bounds: "- (2 ^ 63) \<le> ?S * sint s" "?S * sint s < 2 ^ 63"
    by simp_all
  have "(scast sl :: 64 word) = word_of_int ?S" and "(scast s :: 64 word) = word_of_int (sint s)"
    by (rule of_int_sint [symmetric])+
  then have p: "(scast sl :: 64 word) * scast s = word_of_int (?S * sint s)"
    by (simp only: wi_hom_mult)
  have sp: "sint ((scast sl :: 64 word) * scast s) = ?S * sint s"
    unfolding p using prod_bounds by (rule sint_word_of_int_64)
  have sr: "sint (scast rt :: 64 word) = ?R"
    by (simp add: sint_up_scast is_up)
  have q: "(?S * sint s) sdiv ?R = - (?S * ?w div ?R)"
    using assms nonpos by (auto simp add: signed_divide_int_def sgn_if abs_if)
  have "relative_share (scast sl) s rt = - ucast (word_of_int (- (?S * ?w div ?R)) :: 64 word)"
    unfolding relative_share_def ucast_low32 sdiv64_def sp sr q ..
  also have "(ucast (word_of_int (- (?S * ?w div ?R)) :: 64 word) :: 32 word)
      = word_of_int (- (?S * ?w div ?R))"
    by (rule ucast_down_wi) (simp add: is_down)
  also have "- (word_of_int (- (?S * ?w div ?R)) :: 32 word) = word_of_int (?S * ?w div ?R)"
    by (simp only: wi_hom_neg minus_minus)
  finally show ?thesis .
qed

subsection \<open>The quantities of a size specification\<close>

lemma absolute_sectors_simps [simp]:
  "absolute_sectors [] = 0"
  "absolute_sectors (s # ss) = (if 0 <s s then sint s * 2048 else 0) + absolute_sectors ss"
  by (simp_all add: absolute_sectors_def)

lemma relative_weights_simps [simp]:
  "relative_weights [] = 0"
  "relative_weights (s # ss) = (if s <s 0 then - sint s else 0) + relative_weights ss"
  by (simp_all add: relative_weights_def)

lemma absolute_sectors_nonneg: "0 \<le> absolute_sectors ss"
  by (induction ss) (auto simp add: word_sless_alt)

lemma relative_weights_nonneg: "0 \<le> relative_weights ss"
  by (induction ss) (auto simp add: word_sless_alt)

lemma absolute_sectors_member:
  "s \<in> set ss \<Longrightarrow> 0 <s s \<Longrightarrow> sint s * 2048 \<le> absolute_sectors ss"
  using absolute_sectors_nonneg
  by (induction ss) (auto simp add: word_sless_alt add_increasing add_increasing2)

lemma relative_weights_member:
  "s \<in> set ss \<Longrightarrow> s <s 0 \<Longrightarrow> - sint s \<le> relative_weights ss"
  using relative_weights_nonneg
  by (induction ss) (auto simp add: word_sless_alt add_increasing add_increasing2)

lemma sum_absolute_word:
  "sum_list (map (\<lambda>s. if 0 <s s then s * 2048 else 0) ss) = (word_of_int (absolute_sectors ss) :: 32 word)"
  by (induction ss) simp_all

lemma sum_relative_word:
  "sum_list (map (\<lambda>s. if 0 <s s then 0 else s) ss) = (word_of_int (- relative_weights ss) :: 32 word)"
  by (induction ss) (auto simp add: word_sless_alt signed_eq_0_iff)

lemma relative_shares_simps [simp]:
  "relative_shares S W [] = 0"
  "relative_shares S W (s # ss) = (if s <s 0 then S * (- sint s) div W else 0) + relative_shares S W ss"
  by (simp_all add: relative_shares_def)

lemma floor_share_le:
  fixes W x :: int
  shows "0 < W \<Longrightarrow> W * (x div W) \<le> x"
  using mult_div_mod_eq [of W x] pos_mod_sign [of W x] by linarith

lemma share_nonneg:
  fixes S W w :: int
  shows "0 \<le> S \<Longrightarrow> 0 \<le> W \<Longrightarrow> 0 \<le> w \<Longrightarrow> 0 \<le> S * w div W"
  by (simp add: div_int_pos_iff)

lemma share_le:
  fixes S W w :: int
  assumes "0 \<le> S" and "0 < W" and "w \<le> W"
  shows "S * w div W \<le> S"
proof -
  have "S * w \<le> S * W"
    using assms by (simp add: mult_left_mono)
  then have "S * w div W \<le> S * W div W"
    using assms(2) by (rule zdiv_mono1)
  then show ?thesis
    using assms(2) by simp
qed

lemma relative_shares_nonneg:
  "0 \<le> S \<Longrightarrow> 0 \<le> W \<Longrightarrow> 0 \<le> relative_shares S W ss"
proof (induction ss)
  case Nil
  show ?case by simp
next
  case (Cons s ss)
  have "s <s 0 \<Longrightarrow> 0 \<le> S * (- sint s) div W"
    using Cons.prems by (intro share_nonneg) (simp_all add: word_sless_alt)
  with Cons show ?case by simp
qed

lemma relative_shares_bound:
  assumes "0 \<le> S" and "0 < W"
  shows "W * relative_shares S W ss \<le> S * relative_weights ss"
proof (induction ss)
  case Nil
  show ?case by simp
next
  case (Cons s ss)
  have "W * (S * (- sint s) div W) \<le> S * (- sint s)"
    using assms(2) by (rule floor_share_le)
  with Cons show ?case
    by (simp add: distrib_left)
qed

lemma convert_absolute:
  fixes s :: "32 word"
  assumes "0 <s s" and "sint s * 2048 < 2 ^ 31"
  shows "sint (s * 2048) = sint s * 2048"
proof -
  have "s * 2048 = word_of_int (sint s * 2048)"
    by simp
  moreover have "0 \<le> sint s * 2048"
    using assms(1) by (simp add: word_sless_alt)
  ultimately show ?thesis
    using assms(2) sint_word_of_int_32 [of "sint s * 2048"] by simp
qed

lemma sum_list_word_of_int:
  "sum_list (map (\<lambda>x. word_of_int (h x)) xs) = (word_of_int (sum_list (map h xs)) :: 32 word)"
  by (induction xs) simp_all

lemma relative_shares_zero [simp]: "relative_shares S 0 ss = 0"
  by (induction ss) simp_all

lemma relative_shares_le:
  assumes "0 \<le> S" and "0 \<le> W" and "relative_weights ss = W"
  shows "relative_shares S W ss \<le> S"
proof (cases "W = 0")
  case True
  with assms(1) show ?thesis by simp
next
  case False
  with assms(2) have pos: "0 < W" by simp
  have "W * relative_shares S W ss \<le> W * S"
    using relative_shares_bound [OF assms(1) pos, of ss] assms(3) by (simp add: mult.commute)
  with pos show ?thesis by simp
qed

lemma sizing_pass_Inr:
  "sizing_pass cfg sizes = Inr (resolved, leftover) \<longleftrightarrow>
     blksize cfg = 512
     \<and> (case reserve_absolute sizes (blktotal cfg - 1) 0 of
          (size1, sl1, rt) \<Rightarrow>
            \<not> sl1 <s 0 \<and> (sl1 = 0 \<longrightarrow> rt = 0)
            \<and> divide_relative size1 (scast sl1) rt sl1 = Inr (resolved, leftover))"
  by (auto simp add: sizing_pass_def RESERVED_SECTORS_def BLOCKIO_DEFAULT_SECTORSIZE_def Let_def
        split: prod.splits sum.splits)

lemma budget_exact:
  fixes B :: "32 word"
  assumes "0 \<le> A" and "A < 2 ^ 31" and "\<not> (B - 1 - word_of_int A :: 32 word) <s 0"
  shows "sint (B - 1 - word_of_int A :: 32 word) = uint B - 1 - A"
proof -
  define u where "u = uint B"
  define k where "k = u - 1 - A"
  have u: "0 \<le> u" "u < 2 ^ 32"
    using uint_lt2p [of B] by (simp_all add: u_def)
  have w: "(B - 1 - word_of_int A :: 32 word) = word_of_int k"
    by (simp add: k_def u_def)
  have lo: "- (2 ^ 31) \<le> k" using assms(2) u(1) by (simp add: k_def)
  have hi: "k < 2 ^ 32" using u(2) assms(1) by (simp add: k_def)
  have "sint (word_of_int k :: 32 word) = k"
  proof (cases "k < 2 ^ 31")
    case True
    with lo show ?thesis by (rule sint_word_of_int_32)
  next
    case False
    have e: "(word_of_int k :: 32 word) = word_of_int (k - 2 ^ 32)"
      by (simp add: word_of_int_2p_len [where 'a = 32, simplified])
    have s: "sint (word_of_int (k - 2 ^ 32) :: 32 word) = k - 2 ^ 32"
      using False hi by (intro sint_word_of_int_32) simp_all
    have "sint (word_of_int k :: 32 word) = k - 2 ^ 32"
      by (subst e) (rule s)
    then have "sint (word_of_int k :: 32 word) < 0"
      using hi by simp
    with assms(3) show ?thesis
      unfolding w by (simp add: word_sless_alt)
  qed
  then show ?thesis
    unfolding w by (simp add: k_def u_def)
qed

text \<open>What the two loops leave in an entry and in the counters, under the bounds.\<close>

lemma sizing_pass_values:
  assumes acc: "sizing_pass cfg sizes = Inr (resolved, leftover)"
    and A: "absolute_sectors sizes < 2 ^ 31"
    and W: "relative_weights sizes < 2 ^ 31"
  defines "S \<equiv> uint (blktotal cfg) - 1 - absolute_sectors sizes"
  shows "0 \<le> S"
    and "S < 2 ^ 31"
    and "map sint resolved =
          map (\<lambda>s. if 0 <s s then sint s * 2048
                    else if s <s 0 then S * (- sint s) div relative_weights sizes else 0) sizes"
    and "sint leftover = S - relative_shares S (relative_weights sizes) sizes"
    and "0 \<le> sint leftover"
proof -
  let ?A = "absolute_sectors sizes" and ?W = "relative_weights sizes"
  define conv where "conv = (\<lambda>s :: 32 word. if 0 <s s then s * 2048 else s)"
  define sl1 where "sl1 = blktotal cfg - 1 - (word_of_int ?A :: 32 word)"
  define rt where "rt = (word_of_int ?W :: 32 word)"
  define g where "g = (\<lambda>e. if e <s 0 then relative_share (scast sl1) e rt else e)"
  have ra: "reserve_absolute sizes (blktotal cfg - 1) 0 = (map conv sizes, sl1, rt)"
    by (simp add: reserve_absolute_eq sum_absolute_word sum_relative_word conv_def sl1_def rt_def)
  from acc have ok: "\<not> sl1 <s 0"
    and dr: "divide_relative (map conv sizes) (scast sl1) rt sl1 = Inr (resolved, leftover)"
    by (simp_all add: sizing_pass_Inr ra)
  have A0: "0 \<le> ?A" by (rule absolute_sectors_nonneg)
  have W0: "0 \<le> ?W" by (rule relative_weights_nonneg)
  have sS: "sint sl1 = S"
    unfolding sl1_def S_def using A0 A ok [unfolded sl1_def] by (rule budget_exact)
  show S0: "0 \<le> S"
    using ok sS by (simp add: word_sless_alt)
  show S1: "S < 2 ^ 31"
    using sint32_bounds(2) [of sl1] sS by simp
  have sW: "sint rt = ?W"
    unfolding rt_def using W0 W by (intro sint_word_of_int_32) simp_all
  have conv_neg: "conv s <s 0 \<longleftrightarrow> s <s 0" if "s \<in> set sizes" for s
  proof (cases "0 <s s")
    case True
    then have "sint s * 2048 < 2 ^ 31"
      using absolute_sectors_member [OF that] A by simp
    with True have "sint (s * 2048) = sint s * 2048"
      by (rule convert_absolute)
    with True show ?thesis
      by (simp add: conv_def word_sless_alt)
  next
    case False
    then show ?thesis by (simp add: conv_def)
  qed
  have share: "relative_share (scast sl1) s rt = word_of_int (S * (- sint s) div ?W)"
      and share_lo: "0 \<le> S * (- sint s) div ?W"
      and share_hi: "S * (- sint s) div ?W \<le> S"
      and Wpos: "0 < ?W"
    if "s \<in> set sizes" and "s <s 0" for s
  proof -
    have w: "- sint s \<le> ?W" using that by (rule relative_weights_member)
    have n: "sint s < 0" using that(2) by (simp add: word_sless_alt)
    with w show "0 < ?W" by simp
    then have "0 < sint rt" by (simp add: sW)
    with S0 n show "relative_share (scast sl1) s rt = word_of_int (S * (- sint s) div ?W)"
      using relative_share_exact [of sl1 s rt] by (simp add: sS sW)
    show "0 \<le> S * (- sint s) div ?W"
      using S0 W0 n by (intro share_nonneg) simp_all
    show "S * (- sint s) div ?W \<le> S"
      using S0 \<open>0 < ?W\<close> w by (rule share_le)
  qed
  have "rt \<noteq> 0 \<or> (\<forall>e \<in> set (map conv sizes). \<not> e <s 0)"
  proof (cases "\<exists>s \<in> set sizes. s <s 0")
    case True
    then obtain s where "s \<in> set sizes" "s <s 0" by blast
    then have "0 < sint rt" using Wpos sW by simp
    then show ?thesis by auto
  next
    case False
    then show ?thesis using conv_neg by auto
  qed
  then have "divide_relative (map conv sizes) (scast sl1) rt sl1 =
      Inr (map g (map conv sizes),
           sl1 - sum_list (map (\<lambda>e. if e <s 0 then relative_share (scast sl1) e rt else 0)
                              (map conv sizes)))"
    unfolding g_def by (rule divide_relative_eq)
  with dr have res: "resolved = map (\<lambda>s. g (conv s)) sizes"
    and left: "leftover = sl1 - sum_list (map (\<lambda>s. if conv s <s 0
                  then relative_share (scast sl1) (conv s) rt else 0) sizes)"
    by (simp_all add: comp_def)
  have elem: "sint (g (conv s)) = (if 0 <s s then sint s * 2048
        else if s <s 0 then S * (- sint s) div ?W else 0)" if "s \<in> set sizes" for s
  proof (cases "0 <s s")
    case True
    then have "sint s * 2048 < 2 ^ 31"
      using absolute_sectors_member [OF that] A by simp
    with True have "sint (s * 2048) = sint s * 2048"
      by (rule convert_absolute)
    with True show ?thesis
      by (simp add: g_def conv_def word_sless_alt)
  next
    case False
    show ?thesis
    proof (cases "s <s 0")
      case True
      have "sint (word_of_int (S * (- sint s) div ?W) :: 32 word) = S * (- sint s) div ?W"
        using share_lo [OF that True] share_hi [OF that True] S1
        by (intro sint_word_of_int_32) simp_all
      with True False show ?thesis
        by (simp add: g_def conv_def share [OF that True])
    next
      case nonneg: False
      with False have "sint s = 0" by (simp add: word_sless_alt)
      with False nonneg show ?thesis
        by (simp add: g_def conv_def)
    qed
  qed
  show "map sint resolved =
          map (\<lambda>s. if 0 <s s then sint s * 2048
                    else if s <s 0 then S * (- sint s) div ?W else 0) sizes"
    unfolding res using elem by simp
  have "sum_list (map (\<lambda>s. if conv s <s 0 then relative_share (scast sl1) (conv s) rt else 0) sizes)
      = sum_list (map (\<lambda>s. word_of_int (if s <s 0 then S * (- sint s) div ?W else 0)) sizes)"
  proof (rule arg_cong [where f = sum_list], rule map_cong [OF refl])
    fix s assume s: "s \<in> set sizes"
    show "(if conv s <s 0 then relative_share (scast sl1) (conv s) rt else 0)
        = word_of_int (if s <s 0 then S * (- sint s) div ?W else 0)"
      using conv_neg [OF s] share [OF s] by (auto simp add: conv_def)
  qed
  also have "\<dots> = word_of_int (relative_shares S ?W sizes)"
    by (simp add: sum_list_word_of_int relative_shares_def)
  finally have left': "leftover = word_of_int (S - relative_shares S ?W sizes)"
    using left sS by (simp add: sl1_def S_def)
  have sh0: "0 \<le> relative_shares S ?W sizes"
    using S0 W0 by (rule relative_shares_nonneg)
  have sh1: "relative_shares S ?W sizes \<le> S"
    using S0 W0 by (rule relative_shares_le) simp
  show "sint leftover = S - relative_shares S ?W sizes"
    unfolding left' using sh0 sh1 S0 S1 by (intro sint_word_of_int_32) simp_all
  then show "0 \<le> sint leftover"
    using sh1 by simp
qed

lemma sum_resolved_values:
  "(\<Sum>s\<leftarrow>ss. if 0 <s s then sint s * 2048
              else if s <s 0 then S * (- sint s) div W else 0)
     = absolute_sectors ss + relative_shares S W ss"
  by (induction ss) (auto simp add: word_sless_alt)

lemmas sizing_eval =
  sizing_pass_def RESERVED_SECTORS_def BLOCKIO_DEFAULT_SECTORSIZE_def sectors_per_mb_def
  relative_share_def sdiv64_def signed_divide_int_def word_sless_alt Let_def

lemmas writer_eval =
  blockio_write_partitiontable_def ramdisk_system_def ramdisk_impl_def ramdisk_write_def
  log_call_def sdiv32_def Let_def

subsection \<open>Conservation\<close>

text \<open>
  Where no step of the sizing pass leaves the range of \<open>int32_t\<close> (the absolute slots
  convert to fewer than \<open>2\<^sup>3\<^sup>1\<close> sectors in total, the relative weights add up to less
  than \<open>2\<^sup>3\<^sup>1\<close>), the reserved sector, the resolved counts and the leftover of an accepted
  specification add up to \<open>blktotal\<close> exactly, as integers, and none of them is negative.
\<close>

lemma sizing_conservation:
  assumes "sizing_pass cfg sizes = Inr (resolved, leftover)"
    and "absolute_sectors sizes < 2 ^ 31"
    and "relative_weights sizes < 2 ^ 31"
  shows "uint RESERVED_SECTORS + (\<Sum>s\<leftarrow>resolved. sint s) + sint leftover = uint (blktotal cfg)
    \<and> (\<forall>s \<in> set resolved. 0 \<le> sint s) \<and> 0 \<le> sint leftover"
proof -
  define S where "S = uint (blktotal cfg) - 1 - absolute_sectors sizes"
  note v = sizing_pass_values [OF assms, folded S_def]
  have sum: "sum_list (map sint resolved)
      = absolute_sectors sizes + relative_shares S (relative_weights sizes) sizes"
    unfolding v(3) by (rule sum_resolved_values)
  have one: "uint RESERVED_SECTORS = 1"
    by (simp add: RESERVED_SECTORS_def)
  have total: "uint RESERVED_SECTORS + (\<Sum>s\<leftarrow>resolved. sint s) + sint leftover
      = uint (blktotal cfg)"
    unfolding one sum v(4) by (simp add: S_def)
  have "0 \<le> x" if "x \<in> set (map sint resolved)" for x
  proof -
    from that obtain s where s: "s \<in> set sizes" and x: "x = (if 0 <s s then sint s * 2048
        else if s <s 0 then S * (- sint s) div relative_weights sizes else 0)"
      unfolding v(3) by auto
    have "s <s 0 \<Longrightarrow> 0 \<le> S * (- sint s) div relative_weights sizes"
      using v(1) relative_weights_nonneg [of sizes]
      by (intro share_nonneg) (simp_all add: word_sless_alt)
    then show ?thesis
      unfolding x by (simp add: word_sless_alt)
  qed
  then have "\<forall>s \<in> set resolved. 0 \<le> sint s"
    by simp
  with total v(5) show ?thesis
    by simp
qed

lemma sizing_conservation_scenario_A:
  "sizing_pass cfg_512mb [10, - 1, - 4, 0] = Inr ([20480, 205619, 822476, 0], 0)
   \<and> absolute_sectors [10, - 1, - 4, 0] < 2 ^ 31
   \<and> relative_weights [10, - 1, - 4, 0] < 2 ^ 31
   \<and> uint RESERVED_SECTORS + (\<Sum>s\<leftarrow>[20480, 205619, 822476, 0 :: 32 word]. sint s)
        + sint (0 :: 32 word) = uint (blktotal cfg_512mb)"
proof -
  have a: "sizing_pass cfg_512mb [10, - 1, - 4, 0] = Inr ([20480, 205619, 822476, 0], 0)"
    by (simp add: sizing_eval cfg_512mb_def)
  have b: "absolute_sectors [10, - 1, - 4, 0] < 2 ^ 31"
    by (simp add: word_sless_alt)
  have c: "relative_weights [10, - 1, - 4, 0] < 2 ^ 31"
    by (simp add: word_sless_alt)
  from sizing_conservation [OF a b c] a b c show ?thesis
    by simp
qed

text \<open>
  C1: conservation is what the sizing pass computes, and the test at line 251 is there
  to reject what does not fit; but lines 242 and 243 multiply and subtract \<open>int32_t\<close>
  values with no check. On a device of 1000 sectors the specification 1572864, -1, 0, 0
  passes the test of line 251: line 242 turns the first slot into \<open>-2\<^sup>3\<^sup>0\<close>, line 243
  adds \<open>2\<^sup>3\<^sup>0\<close> sectors to the budget, and the second loop takes the slot for a relative
  one and subtracts it again. The pass ends with the counts 3221225472, 1073742823, 0, 0
  and 1073741824 sectors left over; with the reserved sector they do not add up to 1000,
  neither in 32-bit arithmetic nor as integers, read unsigned or signed, and the call
  returns 524288 MB of unallocated space.
\<close>

theorem sizing_overflow_breaks_conservation:
  "sizing_pass cfg_small [1572864, - 1, 0, 0] = Inr ([3221225472, 1073742823, 0, 0], 1073741824)
   \<and> RESERVED_SECTORS + (3221225472 + 1073742823 + 0 + 0) + 1073741824 \<noteq> blktotal cfg_small
   \<and> uint RESERVED_SECTORS
         + (uint (3221225472 :: 32 word) + uint (1073742823 :: 32 word) + uint (0 :: 32 word)
            + uint (0 :: 32 word))
         + uint (1073741824 :: 32 word) \<noteq> uint (blktotal cfg_small)
   \<and> uint RESERVED_SECTORS
         + (sint (3221225472 :: 32 word) + sint (1073742823 :: 32 word) + sint (0 :: 32 word)
            + sint (0 :: 32 word))
         + sint (1073741824 :: 32 word) \<noteq> uint (blktotal cfg_small)
   \<and> fst (blockio_write_partitiontable (ramdisk_system cfg_small blank_disk) 0
        [1572864, - 1, 0, 0]) = Inr 524288
   \<and> fst (snd (blockio_write_partitiontable (ramdisk_system cfg_small blank_disk) 0
        [1572864, - 1, 0, 0])) = [3221225472, 1073742823, 0, 0]"
proof -
  have a: "sizing_pass cfg_small [1572864, - 1, 0, 0]
      = Inr ([3221225472, 1073742823, 0, 0], 1073741824)"
    by (simp add: sizing_eval cfg_small_def)
  show ?thesis
    by (simp add: writer_eval a signed_divide_int_def)
       (simp add: cfg_small_def RESERVED_SECTORS_def)
qed

subsection \<open>The relative slots\<close>

text \<open>
  When the size specification is accepted and \<open>relativetotal\<close>, as the \<open>int\<close> the first
  loop leaves, is positive, each slot with a negative value is resolved to
  \<open>floor (budget * |weight| / relativetotal)\<close> truncated to 32 bits, where \<open>budget\<close> is
  \<open>sectorsleft\<close> as the first loop leaves it, the same for every slot. And the call with
  10, -1, -4, 0 on a device of 1048576 sectors of 512 bytes resolves the slots to 20480,
  205619, 822476 and 0 sectors and returns 0 MB.
\<close>

lemma relative_slots_resolved:
  assumes "sizing_pass cfg sizes = Inr (resolved, leftover)"
    and "reserve_absolute sizes (blktotal cfg - RESERVED_SECTORS) 0 = (size1, budget, relativetotal)"
    and "0 <s relativetotal"
  shows "(\<forall>i < length sizes. sizes ! i <s 0 \<longrightarrow>
            resolved ! i = word_of_int (sint budget * \<bar>sint (sizes ! i)\<bar> div sint relativetotal))
    \<and> fst (blockio_write_partitiontable (ramdisk_system cfg_512mb blank_disk) 0 [10, - 1, - 4, 0])
        = Inr 0
    \<and> fst (snd (blockio_write_partitiontable (ramdisk_system cfg_512mb blank_disk) 0
          [10, - 1, - 4, 0])) = [20480, 205619, 822476, 0]"
proof (intro conjI allI impI)
  fix i assume i: "i < length sizes" and neg: "sizes ! i <s 0"
  define g where "g = (\<lambda>e. if e <s 0 then relative_share (scast budget) e relativetotal else e)"
  have ra: "reserve_absolute sizes (blktotal cfg - 1) 0 = (size1, budget, relativetotal)"
    using assms(2) by (simp add: RESERVED_SECTORS_def)
  from assms(1) have ok: "\<not> budget <s 0"
    and dr: "divide_relative size1 (scast budget) relativetotal budget = Inr (resolved, leftover)"
    by (simp_all add: sizing_pass_Inr ra)
  have size1: "size1 = map (\<lambda>s. if 0 <s s then s * 2048 else s) sizes"
    using ra by (simp add: reserve_absolute_eq)
  have nz: "relativetotal \<noteq> 0"
    using assms(3) by auto
  then have "divide_relative size1 (scast budget) relativetotal budget =
      Inr (map g size1,
           budget - sum_list (map (\<lambda>e. if e <s 0 then relative_share (scast budget) e relativetotal
                                        else 0) size1))"
    unfolding g_def by (intro divide_relative_eq) simp
  with dr have "resolved = map g size1"
    by simp
  moreover have "size1 ! i = sizes ! i"
    using i neg by (simp add: size1 word_sless_alt)
  ultimately have "resolved ! i = relative_share (scast budget) (sizes ! i) relativetotal"
    using i neg by (simp add: g_def size1)
  also have "\<dots> = word_of_int (sint budget * (- sint (sizes ! i)) div sint relativetotal)"
    using ok neg assms(3) by (intro relative_share_exact) (simp_all add: word_sless_alt)
  also have "- sint (sizes ! i) = \<bar>sint (sizes ! i)\<bar>"
    using neg by (simp add: word_sless_alt)
  finally show "resolved ! i
      = word_of_int (sint budget * \<bar>sint (sizes ! i)\<bar> div sint relativetotal)" .
next
  have a: "sizing_pass cfg_512mb [10, - 1, - 4, 0] = Inr ([20480, 205619, 822476, 0], 0)"
    by (simp add: sizing_eval cfg_512mb_def)
  show "fst (blockio_write_partitiontable (ramdisk_system cfg_512mb blank_disk) 0 [10, - 1, - 4, 0])
        = Inr 0"
    by (simp add: writer_eval a)
  show "fst (snd (blockio_write_partitiontable (ramdisk_system cfg_512mb blank_disk) 0
          [10, - 1, - 4, 0])) = [20480, 205619, 822476, 0]"
    by (simp add: writer_eval a)
qed

lemma relative_slots_resolved_scenario_A:
  "sizing_pass cfg_512mb [10, - 1, - 4, 0] = Inr ([20480, 205619, 822476, 0], 0)
   \<and> reserve_absolute [10, - 1, - 4, 0] (blktotal cfg_512mb - RESERVED_SECTORS) 0
       = ([20480, - 1, - 4, 0], 1028095, 5)
   \<and> (0 :: 32 word) <s 5
   \<and> (2 :: nat) < length [10, - 1, - 4, 0 :: 32 word]
   \<and> [10, - 1, - 4, 0 :: 32 word] ! 2 <s 0
   \<and> [20480, 205619, 822476, 0 :: 32 word] ! 2
       = word_of_int (sint (1028095 :: 32 word) * \<bar>sint ([10, - 1, - 4, 0 :: 32 word] ! 2)\<bar>
           div sint (5 :: 32 word))"
proof -
  have a: "sizing_pass cfg_512mb [10, - 1, - 4, 0] = Inr ([20480, 205619, 822476, 0], 0)"
    by (simp add: sizing_eval cfg_512mb_def)
  have b: "reserve_absolute [10, - 1, - 4, 0] (blktotal cfg_512mb - RESERVED_SECTORS) 0
       = ([20480, - 1, - 4, 0], 1028095, 5)"
    by (simp add: sizing_eval cfg_512mb_def)
  have c: "(0 :: 32 word) <s 5"
    by (simp add: word_sless_alt)
  have d: "(2 :: nat) < length [10, - 1, - 4, 0 :: 32 word]"
    by simp
  have e: "[10, - 1, - 4, 0 :: 32 word] ! 2 <s 0"
    by (simp add: word_sless_alt)
  from relative_slots_resolved [OF a b c] d e
  have "[20480, 205619, 822476, 0 :: 32 word] ! 2
       = word_of_int (sint (1028095 :: 32 word) * \<bar>sint ([10, - 1, - 4, 0 :: 32 word] ! 2)\<bar>
           div sint (5 :: 32 word))"
    by blast
  with a b c d e show ?thesis
    by blast
qed

text \<open>
  C2: the proportional split is what line 265 computes, and it guards its product with
  \<open>int64_t\<close>; but the sum of the weights is kept in an \<open>int\<close> and line 247 adds to it
  with no check. On a device of 11 sectors the weights \<open>-2\<^sup>3\<^sup>1\<close> and -1, whose
  magnitudes add up to 2147483649, leave \<open>relativetotal = -2147483647\<close> and a budget of
  10 sectors. The first slot is resolved to -10, that is \<open>0xFFFFFFF6\<close>, which is neither
  the share computed with the sum of the weights (9) nor the one computed with the
  overflowed \<open>relativetotal\<close> (-11); the call succeeds with that count in the array.
\<close>

theorem relative_total_overflow_breaks_shares:
  "sizing_pass cfg_tiny [- 2147483648, - 1, 0, 0] = Inr ([4294967286, 0, 0, 0], 20)
   \<and> reserve_absolute [- 2147483648, - 1, 0, 0] (blktotal cfg_tiny - RESERVED_SECTORS) 0
       = ([- 2147483648, - 1, 0, 0], 10, - 2147483647)
   \<and> relative_weights [- 2147483648, - 1, 0, 0] = 2147483649
   \<and> (4294967286 :: 32 word)
       \<noteq> word_of_int (sint (10 :: 32 word) * \<bar>sint (- 2147483648 :: 32 word)\<bar> div 2147483649)
   \<and> (4294967286 :: 32 word)
       \<noteq> word_of_int (sint (10 :: 32 word) * \<bar>sint (- 2147483648 :: 32 word)\<bar>
            div sint (- 2147483647 :: 32 word))
   \<and> fst (blockio_write_partitiontable (ramdisk_system cfg_tiny blank_disk) 0
        [- 2147483648, - 1, 0, 0]) = Inr 0
   \<and> fst (snd (blockio_write_partitiontable (ramdisk_system cfg_tiny blank_disk) 0
        [- 2147483648, - 1, 0, 0])) = [4294967286, 0, 0, 0]"
proof -
  have a: "sizing_pass cfg_tiny [- 2147483648, - 1, 0, 0] = Inr ([4294967286, 0, 0, 0], 20)"
    by (simp add: sizing_eval cfg_tiny_def)
  show ?thesis
    by (simp add: writer_eval a signed_divide_int_def)
       (simp add: sizing_eval cfg_tiny_def)
qed

section \<open>The writer\<close>

subsection \<open>Failures\<close>

lemma budget_negative:
  fixes B :: "32 word"
  assumes "A < 2 ^ 31" and "uint B - 1 < A"
  shows "(B - 1 - word_of_int A :: 32 word) <s 0"
proof -
  define u where "u = uint B"
  define k where "k = u - 1 - A"
  have u: "0 \<le> u" by (simp add: u_def)
  have w: "(B - 1 - word_of_int A :: 32 word) = word_of_int k"
    by (simp add: k_def u_def)
  have "- (2 ^ 31) \<le> k" using assms(1) u by (simp add: k_def)
  moreover have neg: "k < 0" using assms(2) by (simp add: k_def u_def)
  ultimately have "sint (word_of_int k :: 32 word) = k"
    by (intro sint_word_of_int_32) simp_all
  with neg show ?thesis
    unfolding w by (simp add: word_sless_alt)
qed

lemma sizing_pass_diskfull:
  assumes "blksize cfg = 512" and "absolute_sectors sizes < 2 ^ 31"
    and "uint (blktotal cfg) - 1 < absolute_sectors sizes"
  shows "sizing_pass cfg sizes
    = Inl (Returned BLOCKIO_ERROR_FDISK_DISKFULL, map (\<lambda>s. if 0 <s s then s * 2048 else s) sizes)"
  using budget_negative [OF assms(2,3)] assms(1)
  by (simp add: sizing_pass_def reserve_absolute_eq sum_absolute_word RESERVED_SECTORS_def
        BLOCKIO_DEFAULT_SECTORSIZE_def)

text \<open>
  When both lookups succeed, the block size is 512, and the absolute slots convert to
  fewer than \<open>2\<^sup>3\<^sup>1\<close> sectors in total (nothing overflows) but to more than
  \<open>blktotal - 1\<close>, the call returns \<open>BLOCKIO_ERROR_FDISK_DISKFULL\<close>, issues no sector I/O
  and leaves the device as it was. For every input, a call that ends in one of the error
  codes either issued no sector I/O and left the device as it was, or returns
  \<open>BLOCKIO_ERROR_IO\<close> because its single \<open>write_sectors\<close> call, the last call it made, did
  not return 1; and no call issues any sector I/O other than at most that one write at
  LBA 0. (A call that reaches line 298 with a negative \<open>sectorsleft\<close> is not among these:
  it returns a negative number without an error code, see the theorem after this one.)
\<close>

lemma write_partitiontable_failures:
  "(devctl_impl sys fd = Some impl \<and> devctl_cfg sys fd = Some cfg \<and> blksize cfg = 512
      \<and> absolute_sectors sizes < 2 ^ 31 \<and> uint (blktotal cfg) - 1 < absolute_sectors sizes \<longrightarrow>
      fst (blockio_write_partitiontable sys fd sizes) = Inl (Returned BLOCKIO_ERROR_FDISK_DISKFULL)
      \<and> sector_lbas (calls_made sys (snd (snd (blockio_write_partitiontable sys fd sizes)))) = []
      \<and> device (snd (snd (blockio_write_partitiontable sys fd sizes))) = device sys)
   \<and> (\<forall>f. fst (blockio_write_partitiontable sys fd sizes) = Inl f \<longrightarrow>
         sector_lbas (calls_made sys (snd (snd (blockio_write_partitiontable sys fd sizes)))) = []
           \<and> device (snd (snd (blockio_write_partitiontable sys fd sizes))) = device sys
         \<or> f = Returned BLOCKIO_ERROR_IO
           \<and> (\<exists>impl buf n dev'. devctl_impl sys fd = Some impl
                 \<and> write_sectors impl (device sys) buf 0 1 = (n, dev') \<and> n \<noteq> 1
                 \<and> calls_made sys (snd (snd (blockio_write_partitiontable sys fd sizes)))
                     = [Devctl_impl, Devctl_cfg, Write_sectors buf 0 1]))
   \<and> (sector_lbas (calls_made sys (snd (snd (blockio_write_partitiontable sys fd sizes)))) = []
       \<or> sector_lbas (calls_made sys (snd (snd (blockio_write_partitiontable sys fd sizes)))) = [0])"
proof (intro conjI impI allI)
  assume h: "devctl_impl sys fd = Some impl \<and> devctl_cfg sys fd = Some cfg \<and> blksize cfg = 512
      \<and> absolute_sectors sizes < 2 ^ 31 \<and> uint (blktotal cfg) - 1 < absolute_sectors sizes"
  then have df: "sizing_pass cfg sizes
      = Inl (Returned BLOCKIO_ERROR_FDISK_DISKFULL, map (\<lambda>s. if 0 <s s then s * 2048 else s) sizes)"
    by (intro sizing_pass_diskfull) simp_all
  show "fst (blockio_write_partitiontable sys fd sizes) = Inl (Returned BLOCKIO_ERROR_FDISK_DISKFULL)"
    using h by (simp add: blockio_write_partitiontable_def Let_def df)
  show "sector_lbas (calls_made sys (snd (snd (blockio_write_partitiontable sys fd sizes)))) = []"
    using h by (simp add: blockio_write_partitiontable_def Let_def df log_call_def calls_made_def)
  show "device (snd (snd (blockio_write_partitiontable sys fd sizes))) = device sys"
    using h by (simp add: blockio_write_partitiontable_def Let_def df log_call_def)
next
  fix f assume "fst (blockio_write_partitiontable sys fd sizes) = Inl f"
  then show "sector_lbas (calls_made sys (snd (snd (blockio_write_partitiontable sys fd sizes)))) = []
           \<and> device (snd (snd (blockio_write_partitiontable sys fd sizes))) = device sys
         \<or> f = Returned BLOCKIO_ERROR_IO
           \<and> (\<exists>impl buf n dev'. devctl_impl sys fd = Some impl
                 \<and> write_sectors impl (device sys) buf 0 1 = (n, dev') \<and> n \<noteq> 1
                 \<and> calls_made sys (snd (snd (blockio_write_partitiontable sys fd sizes)))
                     = [Devctl_impl, Devctl_cfg, Write_sectors buf 0 1])"
    by (auto simp add: blockio_write_partitiontable_def Let_def log_call_def calls_made_def
          split: option.splits sum.splits prod.splits if_splits)
next
  show "sector_lbas (calls_made sys (snd (snd (blockio_write_partitiontable sys fd sizes)))) = []
       \<or> sector_lbas (calls_made sys (snd (snd (blockio_write_partitiontable sys fd sizes)))) = [0]"
    by (auto simp add: blockio_write_partitiontable_def Let_def log_call_def calls_made_def
          split: option.splits sum.splits prod.splits if_splits)
qed

lemma write_partitiontable_failures_runs:
  "devctl_impl (ramdisk_system cfg_small blank_disk) 0 = Some ramdisk_impl
   \<and> devctl_cfg (ramdisk_system cfg_small blank_disk) 0 = Some cfg_small
   \<and> blksize cfg_small = 512
   \<and> absolute_sectors [1, 0, 0, 0] < 2 ^ 31
   \<and> uint (blktotal cfg_small) - 1 < absolute_sectors [1, 0, 0, 0]
   \<and> fst (blockio_write_partitiontable (ramdisk_system cfg_small blank_disk) 0 [1, 0, 0, 0])
       = Inl (Returned BLOCKIO_ERROR_FDISK_DISKFULL)
   \<and> sector_lbas (calls_made (ramdisk_system cfg_small blank_disk)
        (snd (snd (blockio_write_partitiontable (ramdisk_system cfg_small blank_disk) 0
           [1, 0, 0, 0])))) = []
   \<and> device (snd (snd (blockio_write_partitiontable (ramdisk_system cfg_small blank_disk) 0
        [1, 0, 0, 0]))) = blank_disk
   \<and> fst (blockio_write_partitiontable (readonly_system cfg_small blank_disk) 0 [0, 0, 0, 0])
       = Inl (Returned BLOCKIO_ERROR_IO)
   \<and> device (snd (snd (blockio_write_partitiontable (readonly_system cfg_small blank_disk) 0
        [0, 0, 0, 0]))) = blank_disk"
proof -
  have a: "sizing_pass cfg_small [0, 0, 0, 0] = Inr ([0, 0, 0, 0], 999)"
    by (simp add: sizing_eval cfg_small_def)
  have b: "fst (blockio_write_partitiontable (readonly_system cfg_small blank_disk) 0 [0, 0, 0, 0])
       = Inl (Returned BLOCKIO_ERROR_IO)"
    "device (snd (snd (blockio_write_partitiontable (readonly_system cfg_small blank_disk) 0
        [0, 0, 0, 0]))) = blank_disk"
    by (simp_all add: blockio_write_partitiontable_def Let_def log_call_def readonly_system_def
          readonly_impl_def a)
  show ?thesis
    using write_partitiontable_failures
        [of "ramdisk_system cfg_small blank_disk" 0 ramdisk_impl cfg_small "[1, 0, 0, 0]"] b
    by (simp add: ramdisk_system_def cfg_small_def word_sless_alt)
qed

text \<open>
  C5: the test at line 251 is there to return \<open>BLOCKIO_ERROR_FDISK_DISKFULL\<close> before
  anything is written, but lines 242 and 243 multiply and subtract \<open>int32_t\<close> values with
  no check, and the test sees the wrapped \<open>sectorsleft\<close>. On a device of 1000 sectors a
  slot of 2097152 MB is \<open>2\<^sup>3\<^sup>2\<close> sectors, which line 242 turns into 0: the call writes an
  empty table over sector 0 and returns 0. Two slots of 1048575 MB convert without
  overflow to 2147481600 sectors each, but subtracting both at line 243 wraps
  \<open>sectorsleft\<close> around to 5095: the call writes two entries of 2147481600 sectors and
  returns 2. On a device of 11 sectors the specification -1, 1, 2147483647, -2 passes the
  test too, sector 0 is written, and line 298 then returns -3: the caller is told of an
  error after the table has been overwritten.
\<close>

theorem diskfull_test_defeated_by_overflow:
  "absolute_sectors [2097152, 0, 0, 0] = 4294967296
   \<and> uint (blktotal cfg_small) - 1 < absolute_sectors [2097152, 0, 0, 0]
   \<and> fst (blockio_write_partitiontable (ramdisk_system cfg_small blank_disk) 0 [2097152, 0, 0, 0])
       = Inr 0
   \<and> sector_lbas (calls_made (ramdisk_system cfg_small blank_disk)
         (snd (snd (blockio_write_partitiontable (ramdisk_system cfg_small blank_disk) 0
            [2097152, 0, 0, 0])))) = [0]
   \<and> absolute_sectors [1048575, 1048575, 0, 0] = 4294963200
   \<and> uint (blktotal cfg_small) - 1 < absolute_sectors [1048575, 1048575, 0, 0]
   \<and> fst (blockio_write_partitiontable (ramdisk_system cfg_small blank_disk) 0
        [1048575, 1048575, 0, 0]) = Inr 2
   \<and> fst (snd (blockio_write_partitiontable (ramdisk_system cfg_small blank_disk) 0
        [1048575, 1048575, 0, 0])) = [2147481600, 2147481600, 0, 0]
   \<and> sector_lbas (calls_made (ramdisk_system cfg_small blank_disk)
         (snd (snd (blockio_write_partitiontable (ramdisk_system cfg_small blank_disk) 0
            [1048575, 1048575, 0, 0])))) = [0]
   \<and> uint (blktotal cfg_tiny) - 1 < absolute_sectors [- 1, 1, 2147483647, - 2]
   \<and> fst (blockio_write_partitiontable (ramdisk_system cfg_tiny blank_disk) 0
        [- 1, 1, 2147483647, - 2]) = Inr (- 3)
   \<and> sector_lbas (calls_made (ramdisk_system cfg_tiny blank_disk)
         (snd (snd (blockio_write_partitiontable (ramdisk_system cfg_tiny blank_disk) 0
            [- 1, 1, 2147483647, - 2])))) = [0]"
proof -
  have a: "sizing_pass cfg_small [2097152, 0, 0, 0] = Inr ([0, 0, 0, 0], 999)"
    by (simp add: sizing_eval cfg_small_def)
  have b: "sizing_pass cfg_small [1048575, 1048575, 0, 0]
      = Inr ([2147481600, 2147481600, 0, 0], 5095)"
    by (simp add: sizing_eval cfg_small_def)
  have c: "sizing_pass cfg_tiny [- 1, 1, 2147483647, - 2] = Inr ([3, 2048, 6826, 6], 4294960471)"
    by (simp add: sizing_eval cfg_tiny_def)
  show ?thesis
    by (simp add: writer_eval a b c calls_made_def signed_divide_int_def)
       (simp add: cfg_small_def cfg_tiny_def word_sless_alt)
qed

subsection \<open>The table written\<close>

lemma length_write_entries [simp]:
  "length (write_entries ss i start buf) = length buf"
  by (induction ss arbitrary: i start buf) simp_all

lemma write_entries_below:
  "j < startsector_offset i \<Longrightarrow> write_entries ss i start buf ! j = buf ! j"
proof (induction ss arbitrary: i start buf)
  case Nil
  show ?case by simp
next
  case (Cons s ss)
  have "j < startsector_offset (Suc i)"
    using Cons.prems by (simp add: startsector_offset_def partition_offset_def)
  then show ?case
    using Cons.prems Cons.IH
    by (simp add: nth_write_little32to16_other sectors_offset_def startsector_offset_def)
qed

lemma write_entries_above:
  "startsector_offset (i + length ss) \<le> j + 8 \<Longrightarrow> write_entries ss i start buf ! j = buf ! j"
proof (induction ss arbitrary: i start buf)
  case Nil
  show ?case by simp
next
  case (Cons s ss)
  then show ?case
    by (simp add: nth_write_little32to16_other sectors_offset_def startsector_offset_def
          partition_offset_def)
qed

lemma read_little32from16_cong:
  "(\<And>j. j < 4 \<Longrightarrow> xs ! (off + j) = ys ! (off + j)) \<Longrightarrow>
     read_little32from16 xs off = read_little32from16 ys off"
proof -
  assume h: "\<And>j. j < 4 \<Longrightarrow> xs ! (off + j) = ys ! (off + j)"
  from h [of 0] h [of 1] h [of 2] h [of 3] show ?thesis
    by (simp add: read_little32from16_def)
qed

lemma write_entries_entry:
  assumes "k < length ss" and "partition_offset (i + length ss) \<le> length buf"
  shows "(ss ! k \<noteq> 0 \<longrightarrow>
            read_little32from16 (write_entries ss i start buf) (startsector_offset (i + k))
              = start + sum_list (take k ss)
            \<and> read_little32from16 (write_entries ss i start buf) (sectors_offset (i + k)) = ss ! k)
       \<and> (ss ! k = 0 \<longrightarrow>
            (\<forall>j < 16. write_entries ss i start buf ! (partition_offset (i + k) + j)
                        = buf ! (partition_offset (i + k) + j)))"
  using assms
proof (induction ss arbitrary: i start buf k)
  case Nil
  then show ?case by simp
next
  case (Cons s ss)
  let ?buf' = "write_little32to16 (write_little32to16 buf (startsector_offset i) start)
                 (sectors_offset i) s"
  have len: "partition_offset (Suc i + length ss) \<le> length buf"
    using Cons.prems(2) by simp
  show ?case
  proof (cases k)
    case 0
    have inb: "sectors_offset i + 3 < length buf"
      using Cons.prems(2) by (simp add: sectors_offset_def partition_offset_def)
    have keep: "write_entries ss (Suc i) st b ! j = b ! j" if "j < partition_offset i + 16" for st b j
      using that by (intro write_entries_below) (simp add: startsector_offset_def partition_offset_def)
    show ?thesis
    proof (cases "s = 0")
      case True
      with 0 show ?thesis by (simp add: keep)
    next
      case False
      have "read_little32from16 (write_entries ss (Suc i) (start + s) ?buf') (startsector_offset i)
          = read_little32from16 ?buf' (startsector_offset i)"
        by (rule read_little32from16_cong, rule keep) (simp add: startsector_offset_def)
      also have "\<dots> = start"
        using inb
        by (simp add: read_little32_write32_other read_write_little32 startsector_offset_def
              sectors_offset_def)
      finally have a: "read_little32from16 (write_entries ss (Suc i) (start + s) ?buf')
          (startsector_offset i) = start" .
      have "read_little32from16 (write_entries ss (Suc i) (start + s) ?buf') (sectors_offset i)
          = read_little32from16 ?buf' (sectors_offset i)"
        by (rule read_little32from16_cong, rule keep) (simp add: sectors_offset_def)
      also have "\<dots> = s"
        using inb by (simp add: read_write_little32)
      finally have b: "read_little32from16 (write_entries ss (Suc i) (start + s) ?buf')
          (sectors_offset i) = s" .
      from False 0 a b show ?thesis by simp
    qed
  next
    case (Suc k')
    then have k': "k' < length ss" using Cons.prems(1) by simp
    have untouched: "?buf' ! (partition_offset (Suc i + k') + j) = buf ! (partition_offset (Suc i + k') + j)"
      for j
      by (simp add: nth_write_little32to16_other sectors_offset_def startsector_offset_def
            partition_offset_def)
    show ?thesis
    proof (cases "s = 0")
      case True
      with Suc Cons.IH [OF k' len, of start] show ?thesis by simp
    next
      case False
      have len': "partition_offset (Suc i + length ss) \<le> length ?buf'"
        using len by simp
      from False Suc Cons.IH [OF k' len', of "start + s"] untouched show ?thesis
        by (simp add: add.assoc)
    qed
  qed
qed



lemma build_mbr_entry:
  assumes "k < length ss" and "length ss \<le> 4"
  shows "(ss ! k \<noteq> 0 \<longrightarrow>
            read_little32from16 (build_mbr cfg ss) (startsector_offset k)
              = blkstart cfg + RESERVED_SECTORS + sum_list (take k ss)
            \<and> read_little32from16 (build_mbr cfg ss) (sectors_offset k) = ss ! k)
       \<and> (ss ! k = 0 \<longrightarrow> (\<forall>j < 16. build_mbr cfg ss ! (partition_offset k + j) = 0))"
proof -
  let ?z = "replicate BLOCKIO_DEFAULT_SECTORSIZE (0 :: byte)"
  let ?t = "write_entries ss 0 (blkstart cfg + RESERVED_SECTORS) ?z"
  have fit: "partition_offset (0 + length ss) \<le> length ?z"
    using assms(2) by (simp add: partition_offset_def BLOCKIO_DEFAULT_SECTORSIZE_def)
  have k4: "k < 4" using assms by simp
  have sig32: "read_little32from16 (build_mbr cfg ss) off = read_little32from16 ?t off"
    if "off + 4 \<le> 510" for off
    using that by (simp add: build_mbr_def read_little32_write16_other signature_offset_def)
  have sig8: "build_mbr cfg ss ! j = ?t ! j" if "j < 510" for j
    using that by (simp add: build_mbr_def nth_write_little16to16_other signature_offset_def)
  have zero: "?z ! (partition_offset k + j) = 0" if "j < 16" for j
    using that k4 by (simp add: partition_offset_def BLOCKIO_DEFAULT_SECTORSIZE_def)
  from write_entries_entry [OF assms(1) fit, of "blkstart cfg + RESERVED_SECTORS"] k4 zero
  show ?thesis
    by (simp add: sig32 sig8 startsector_offset_def sectors_offset_def partition_offset_def)
qed

lemma divide_relative_length:
  "divide_relative ss std rt sl = Inr (rs, l) \<Longrightarrow> length rs = length ss"
  by (induction ss arbitrary: sl rs l)
     (auto simp add: Let_def split: if_splits sum.splits prod.splits)

lemma sizing_pass_length:
  "sizing_pass cfg sizes = Inr (resolved, leftover) \<Longrightarrow> length resolved = length sizes"
  by (auto simp add: sizing_pass_Inr reserve_absolute_eq dest: divide_relative_length)







section \<open>The type patcher\<close>

lemma calls_made_log [simp]:
  "calls_made sys (sys'\<lparr>io_log := io_log sys @ cs\<rparr>) = cs"
  by (simp add: calls_made_def)

lemma byte_and_ff [simp]: "(b :: byte) AND 0xFF = b"
proof -
  have e: "(0xFF :: byte) = - 1" by simp
  show ?thesis unfolding e by simp
qed

lemma partition_type_address_valid:
  "1 \<le> nr \<Longrightarrow> nr \<le> 4 \<Longrightarrow> nat (partition_type_address nr) = type_offset (nat (nr - 1))"
  by (simp add: partition_type_address_def type_offset_def partition_offset_def nat_add_distrib nat_mult_distrib)


text \<open>
  C9: \<open>blockio_write_partitiontype\<close> does not check \<open>nr\<close>. The byte designated by
  \<open>partition[nr - 1].type\<close> lies in the partition array (bytes 446 to 509) exactly when
  \<open>1 \<le> nr \<le> 4\<close>; for \<open>nr = 0\<close> it lies in the boot code, for \<open>nr \<ge> 5\<close> at or past the
  signature. For \<open>nr\<close> outside 1 to 4, after a successful read, the call stores the type at
  that byte and writes the sector back when the byte is inside the buffer, and stores
  outside the buffer otherwise.
\<close>

theorem write_partitiontype_unchecked_index:
  "(446 \<le> partition_type_address nr \<and> partition_type_address nr < 510 \<longleftrightarrow> 1 \<le> nr \<and> nr \<le> 4)
   \<and> 0 \<le> partition_type_address 0 \<and> partition_type_address 0 < 446
   \<and> (5 \<le> nr \<longrightarrow> 510 \<le> partition_type_address nr)
   \<and> (devctl_impl sys fd = Some impl \<and> devctl_cfg sys fd = Some cfg
        \<and> read_sectors impl (device sys) (blkstart cfg) 1 = (1, buf, dev1)
        \<and> (nr < 1 \<or> 4 < nr) \<longrightarrow>
        (if 0 \<le> partition_type_address nr \<and> partition_type_address nr < 512
         then last (io_log (snd (blockio_write_partitiontype sys fd nr type)))
                = Write_sectors (buf[nat (partition_type_address nr) := type]) (blkstart cfg) 1
         else fst (blockio_write_partitiontype sys fd nr type) = Inl Out_of_bounds))"
  by (auto simp add: partition_type_address_def blockio_write_partitiontype_def Let_def
        log_call_def BLOCKIO_DEFAULT_SECTORSIZE_def split: prod.splits; presburger)

theorem write_partitiontype_unchecked_index_witness:
  "devctl_impl (ramdisk_system cfg_small blank_disk) 0 = Some ramdisk_impl
   \<and> devctl_cfg (ramdisk_system cfg_small blank_disk) 0 = Some cfg_small
   \<and> read_sectors ramdisk_impl (device (ramdisk_system cfg_small blank_disk)) (blkstart cfg_small) 1
       = (1, replicate 512 0, blank_disk)
   \<and> ((0::int) < 1 \<or> 4 < (0::int))
   \<and> last (io_log (snd (blockio_write_partitiontype (ramdisk_system cfg_small blank_disk) 0 0 0x83)))
       = Write_sectors ((replicate 512 0)[434 := 0x83]) 0 1
   \<and> (5::int) \<le> 5 \<and> 510 \<le> partition_type_address 5
   \<and> fst (blockio_write_partitiontype (ramdisk_system cfg_small blank_disk) 0 5 0x83)
       = Inl Out_of_bounds"
  using write_partitiontype_unchecked_index
      [of 0 "ramdisk_system cfg_small blank_disk" 0 ramdisk_impl cfg_small "replicate 512 0"
          blank_disk "0x83"]
    write_partitiontype_unchecked_index
      [of 5 "ramdisk_system cfg_small blank_disk" 0 ramdisk_impl cfg_small "replicate 512 0"
          blank_disk "0x83"]
  by (simp add: ramdisk_system_def ramdisk_impl_def ramdisk_read_def blank_disk_def cfg_small_def
        partition_type_address_def)

text \<open>
  C6: for \<open>nr\<close> from 1 to 4, when both lookups succeed the call returns
  \<open>BLOCKIO_ERROR_IO\<close> exactly when the read or the write does not return 1, and returns 0
  exactly when both return 1; on success the sector written, at the address that was read,
  is the sector read with the type byte of entry \<open>nr - 1\<close> set to the given type and every
  other byte unchanged, and the device after the call is the device as \<open>write_sectors\<close>
  left it when given that sector. Whenever the read returns 1 the write is issued with
  that sector and the device is as the write left it; when the read does not return 1 no
  write is issued and the device is as the read left it. When a lookup fails no sector is
  transferred at all, the device is untouched and the call returns \<open>BLOCKIO_ERROR_IO\<close>.
\<close>

theorem write_partitiontype_frame:
  assumes "1 \<le> nr" and "nr \<le> 4"
  shows
   "(devctl_impl sys fd = Some impl \<and> devctl_cfg sys fd = Some cfg
      \<and> read_sectors impl (device sys) (blkstart cfg) 1 = (r, buf, dev1) \<and> length buf = 512
      \<and> write_sectors impl dev1 (buf[type_offset (nat (nr - 1)) := type]) (blkstart cfg) 1 = (w, dev2)
     \<longrightarrow>
       (fst (blockio_write_partitiontype sys fd nr type) = Inl (Returned BLOCKIO_ERROR_IO)
          \<longleftrightarrow> r \<noteq> 1 \<or> w \<noteq> 1)
       \<and> (fst (blockio_write_partitiontype sys fd nr type) = Inr () \<longleftrightarrow> r = 1 \<and> w = 1)
       \<and> (fst (blockio_write_partitiontype sys fd nr type) = Inr () \<longrightarrow>
            (\<exists>wbuf. calls_made sys (snd (blockio_write_partitiontype sys fd nr type))
                      = [Devctl_impl, Devctl_cfg, Read_sectors (blkstart cfg) 1,
                         Write_sectors wbuf (blkstart cfg) 1]
                \<and> wbuf = buf[type_offset (nat (nr - 1)) := type]
                \<and> length wbuf = 512
                \<and> wbuf ! type_offset (nat (nr - 1)) = type
                \<and> (\<forall>j < 512. j \<noteq> type_offset (nat (nr - 1)) \<longrightarrow> wbuf ! j = buf ! j))
            \<and> device (snd (blockio_write_partitiontype sys fd nr type)) = dev2)
       \<and> (r = 1 \<longrightarrow>
            calls_made sys (snd (blockio_write_partitiontype sys fd nr type))
              = [Devctl_impl, Devctl_cfg, Read_sectors (blkstart cfg) 1,
                 Write_sectors (buf[type_offset (nat (nr - 1)) := type]) (blkstart cfg) 1]
            \<and> device (snd (blockio_write_partitiontype sys fd nr type)) = dev2)
       \<and> (r \<noteq> 1 \<longrightarrow>
            calls_made sys (snd (blockio_write_partitiontype sys fd nr type))
              = [Devctl_impl, Devctl_cfg, Read_sectors (blkstart cfg) 1]
            \<and> device (snd (blockio_write_partitiontype sys fd nr type)) = dev1))
    \<and> (devctl_impl sys fd = None \<or> devctl_cfg sys fd = None \<longrightarrow>
         fst (blockio_write_partitiontype sys fd nr type) = Inl (Returned BLOCKIO_ERROR_IO)
         \<and> sector_lbas (calls_made sys (snd (blockio_write_partitiontype sys fd nr type))) = []
         \<and> device (snd (blockio_write_partitiontype sys fd nr type)) = device sys)"
proof -
  have off: "type_offset (nat (nr - 1)) < 512"
    using assms by (simp add: type_offset_def partition_offset_def)
  have addr: "nat (partition_type_address nr) = type_offset (nat (nr - 1))"
    using assms by (rule partition_type_address_valid)
  have inb: "\<not> (partition_type_address nr < 0 \<or> int BLOCKIO_DEFAULT_SECTORSIZE \<le> partition_type_address nr)"
    using assms by (simp add: partition_type_address_def BLOCKIO_DEFAULT_SECTORSIZE_def)
  show ?thesis
    using off
    by (auto simp add: blockio_write_partitiontype_def Let_def log_call_def calls_made_def addr inb
          split: option.splits prod.splits)
qed

theorem write_partitiontype_frame_witness:
  "(1::int) \<le> 2 \<and> (2::int) \<le> 4
   \<and> devctl_impl (ramdisk_system cfg_small blank_disk) 0 = Some ramdisk_impl
   \<and> devctl_cfg (ramdisk_system cfg_small blank_disk) 0 = Some cfg_small
   \<and> read_sectors ramdisk_impl (device (ramdisk_system cfg_small blank_disk)) (blkstart cfg_small) 1
       = (1, replicate 512 0, blank_disk)
   \<and> length (replicate 512 (0 :: byte)) = 512
   \<and> write_sectors ramdisk_impl blank_disk ((replicate 512 0)[type_offset (nat (2 - 1)) := 0x83])
        (blkstart cfg_small) 1
       = (1, blank_disk(0 := (replicate 512 0)[type_offset (nat (2 - 1)) := 0x83]))
   \<and> fst (blockio_write_partitiontype (ramdisk_system cfg_small blank_disk) 0 2 0x83) = Inr ()
   \<and> device (snd (blockio_write_partitiontype (ramdisk_system cfg_small blank_disk) 0 2 0x83))
       = blank_disk(0 := (replicate 512 0)[type_offset (nat (2 - 1)) := 0x83])
   \<and> device (snd (blockio_write_partitiontype (ramdisk_system cfg_small blank_disk) 0 2 0x83)) 0
        ! type_offset 1 = 0x83
   \<and> devctl_impl absent_system 0 = None
   \<and> fst (blockio_write_partitiontype absent_system 0 2 0x83) = Inl (Returned BLOCKIO_ERROR_IO)
   \<and> sector_lbas (calls_made absent_system (snd (blockio_write_partitiontype absent_system 0 2 0x83)))
       = []"
  using write_partitiontype_frame
      [of 2 "ramdisk_system cfg_small blank_disk" 0 ramdisk_impl cfg_small 1 "replicate 512 0"
          blank_disk "0x83" 1 "blank_disk(0 := (replicate 512 0)[type_offset (nat (2 - 1)) := 0x83])"]
    write_partitiontype_frame [of 2 absent_system 0]
  by (simp add: ramdisk_system_def ramdisk_impl_def ramdisk_read_def ramdisk_write_def
        blank_disk_def cfg_small_def absent_system_def)

section \<open>The selector\<close>

text \<open>
  C7, as the specification states it: for every \<open>nr\<close> outside 1 to 4,
  \<open>select_partition\<close> fails with \<open>InvalidArgument\<close>. The source returns
  \<open>BLOCKIO_ERROR_IO\<close> at line 386, the code it returns for every input and output
  failure: for \<open>nr = 5\<close> the error is of class \<open>IoError\<close>.
\<close>

theorem select_partition_invalid_nr_counterexample:
  "fst (blockio_select_partition (ramdisk_system cfg_small blank_disk) 0 5 (Some 7) (Some 9))
     = Inl (Returned BLOCKIO_ERROR_IO)
   \<and> spec_error_of BLOCKIO_ERROR_IO \<noteq> InvalidArgument"
  by (simp add: blockio_select_partition_def)

text \<open>
  C7, amended: for every \<open>nr\<close> outside 1 to 4, \<open>blockio_select_partition\<close> returns
  \<open>BLOCKIO_ERROR_IO\<close>, of class \<open>IoError\<close>, and the system after the call is the system
  before it: no \<open>posix_devctl\<close> lookup, no sector read, the device untouched.
\<close>

theorem select_partition_invalid_nr:
  "nr < 1 \<or> nr > 4 \<Longrightarrow>
     fst (blockio_select_partition sys fd nr blkstart_p blkcount_p) = Inl (Returned BLOCKIO_ERROR_IO)
     \<and> spec_error_of BLOCKIO_ERROR_IO = IoError
     \<and> snd (snd (snd (blockio_select_partition sys fd nr blkstart_p blkcount_p))) = sys"
  by (simp add: blockio_select_partition_def)

theorem select_partition_invalid_nr_witness:
  "((5::int) < 1 \<or> (5::int) > 4)
   \<and> fst (blockio_select_partition (ramdisk_system cfg_small blank_disk) 0 5 (Some 7) (Some 9))
       = Inl (Returned BLOCKIO_ERROR_IO)
   \<and> io_log (snd (snd (snd (blockio_select_partition (ramdisk_system cfg_small blank_disk) 0 5
        (Some 7) (Some 9))))) = []"
  using select_partition_invalid_nr [of 5 "ramdisk_system cfg_small blank_disk" 0 "Some 7" "Some 9"]
  by (simp add: ramdisk_system_def)

text \<open>
  C4: with both output pointers non-null, whenever \<open>blockio_select_partition\<close> ends in a
  failure the two output cells hold 0; and when the lookups succeed, the read delivers one
  sector and the signature field of that sector is not \<open>0xAA55\<close>, the call returns
  \<open>BLOCKIO_ERROR_WRONG_MBR_SIGNATURE\<close> with both cells 0.
\<close>

theorem select_partition_error_zeroes_extent:
  assumes "blkstart_p \<noteq> None" and "blkcount_p \<noteq> None"
  shows "(\<forall>f. fst (blockio_select_partition sys fd nr blkstart_p blkcount_p) = Inl f \<longrightarrow>
            fst (snd (blockio_select_partition sys fd nr blkstart_p blkcount_p)) = Some 0
            \<and> fst (snd (snd (blockio_select_partition sys fd nr blkstart_p blkcount_p))) = Some 0)
    \<and> (1 \<le> nr \<and> nr \<le> 4 \<and> devctl_impl sys fd = Some impl \<and> devctl_cfg sys fd = Some cfg
         \<and> read_sectors impl (device sys) (blkstart cfg) 1 = (1, buf, dev1)
         \<and> read_little16from16 buf signature_offset \<noteq> BLOCKIO_MBR_SIGNATURE \<longrightarrow>
         fst (blockio_select_partition sys fd nr blkstart_p blkcount_p)
           = Inl (Returned BLOCKIO_ERROR_WRONG_MBR_SIGNATURE)
         \<and> fst (snd (blockio_select_partition sys fd nr blkstart_p blkcount_p)) = Some 0
         \<and> fst (snd (snd (blockio_select_partition sys fd nr blkstart_p blkcount_p))) = Some 0)"
  using assms
  by (auto simp add: blockio_select_partition_def log_call_def Let_def
           split: option.splits prod.splits if_splits)

theorem select_partition_error_zeroes_extent_witness:
  "Some (7 :: 32 word) \<noteq> None \<and> Some (9 :: 32 word) \<noteq> None
   \<and> (1::int) \<le> 2 \<and> (2::int) \<le> 4
   \<and> devctl_impl (ramdisk_system cfg_small blank_disk) 0 = Some ramdisk_impl
   \<and> devctl_cfg (ramdisk_system cfg_small blank_disk) 0 = Some cfg_small
   \<and> read_sectors ramdisk_impl (device (ramdisk_system cfg_small blank_disk)) (blkstart cfg_small) 1
       = (1, replicate 512 0, blank_disk)
   \<and> read_little16from16 (replicate 512 0) signature_offset \<noteq> BLOCKIO_MBR_SIGNATURE
   \<and> fst (blockio_select_partition (ramdisk_system cfg_small blank_disk) 0 2 (Some 7) (Some 9))
       = Inl (Returned BLOCKIO_ERROR_WRONG_MBR_SIGNATURE)
   \<and> fst (snd (blockio_select_partition (ramdisk_system cfg_small blank_disk) 0 2 (Some 7) (Some 9)))
       = Some 0
   \<and> fst (snd (snd (blockio_select_partition (ramdisk_system cfg_small blank_disk) 0 2 (Some 7)
        (Some 9)))) = Some 0"
  using select_partition_error_zeroes_extent
    [of "Some 7" "Some 9" "ramdisk_system cfg_small blank_disk" 0 2 ramdisk_impl cfg_small
        "replicate 512 0" blank_disk]
  by (simp add: ramdisk_system_def ramdisk_impl_def ramdisk_read_def blank_disk_def cfg_small_def
        read_little16from16_def signature_offset_def BLOCKIO_MBR_SIGNATURE_def)

section \<open>The sector each operation addresses\<close>

lemma write_partitiontable_lbas:
  assumes "devctl_impl sys fd = Some impl" and "devctl_cfg sys fd = Some cfg"
    and "sizing_pass cfg sizes = Inr (resolved, leftover)"
  shows "sector_lbas (calls_made sys (snd (snd (blockio_write_partitiontable sys fd sizes)))) = [0]"
    and "calls_made sys (snd (snd (blockio_write_partitiontable sys fd sizes)))
           = [Devctl_impl, Devctl_cfg, Write_sectors (build_mbr cfg resolved) 0 1]"
  using assms
  by (auto simp add: blockio_write_partitiontable_def Let_def log_call_def calls_made_def
        split: prod.splits)

lemma write_partitiontype_lbas:
  assumes "devctl_impl sys fd = Some impl" and "devctl_cfg sys fd = Some cfg"
  shows "set (sector_lbas (calls_made sys (snd (blockio_write_partitiontype sys fd nr type))))
    = {blkstart cfg}"
  using assms
  by (auto simp add: blockio_write_partitiontype_def Let_def log_call_def calls_made_def
        split: prod.splits)

lemma select_partition_lbas:
  assumes "devctl_impl sys fd = Some impl" and "devctl_cfg sys fd = Some cfg"
    and "1 \<le> nr" and "nr \<le> 4" and "blkstart_p \<noteq> None" and "blkcount_p \<noteq> None"
  shows "sector_lbas (calls_made sys
           (snd (snd (snd (blockio_select_partition sys fd nr blkstart_p blkcount_p)))))
    = [blkstart cfg]"
  using assms
  by (auto simp add: blockio_select_partition_def Let_def log_call_def calls_made_def
        split: prod.splits option.splits)

text \<open>
  C10: when the lookups succeed, the writer (on a specification it accepts) passes LBA 0
  to \<open>write_sectors\<close>, while the type patcher and the selector (for \<open>nr\<close> from 1 to 4
  and non-null output pointers) pass \<open>cfg.blkstart\<close> to \<open>read_sectors\<close> and
  \<open>write_sectors\<close>; so the three address the same sector exactly when \<open>blkstart\<close> is 0.
  The start sector the writer stores in slot 0, when that slot is used, is
  \<open>blkstart + 1\<close> all the same.
\<close>

theorem mbr_sector_addresses:
  fixes type :: byte
  assumes "devctl_impl sys fd = Some impl" and "devctl_cfg sys fd = Some cfg"
    and "sizing_pass cfg sizes = Inr (resolved, leftover)"
    and "1 \<le> nr" and "nr \<le> 4" and "blkstart_p \<noteq> None" and "blkcount_p \<noteq> None"
  defines "written \<equiv> set (sector_lbas (calls_made sys
             (snd (snd (blockio_write_partitiontable sys fd sizes)))))"
    and "patched \<equiv> set (sector_lbas (calls_made sys
             (snd (blockio_write_partitiontype sys fd nr type))))"
    and "selected \<equiv> set (sector_lbas (calls_made sys
             (snd (snd (snd (blockio_select_partition sys fd nr blkstart_p blkcount_p))))))"
  shows "written = {0} \<and> patched = {blkstart cfg} \<and> selected = {blkstart cfg}
    \<and> (written = patched \<and> written = selected \<longleftrightarrow> blkstart cfg = 0)
    \<and> (length sizes = 4 \<and> resolved ! 0 \<noteq> 0 \<longrightarrow>
         (\<exists>buf. Write_sectors buf 0 1 \<in> set (calls_made sys
                    (snd (snd (blockio_write_partitiontable sys fd sizes))))
             \<and> read_little32from16 buf (startsector_offset 0) = blkstart cfg + RESERVED_SECTORS))"
proof -
  have w: "written = {0}"
    unfolding written_def using write_partitiontable_lbas(1) [OF assms(1-3)] by simp
  have p: "patched = {blkstart cfg}"
    unfolding patched_def using assms(1,2) by (rule write_partitiontype_lbas)
  have s: "selected = {blkstart cfg}"
    unfolding selected_def using select_partition_lbas [OF assms(1,2,4-7)] by simp
  have e: "\<exists>buf. Write_sectors buf 0 1 \<in> set (calls_made sys
                    (snd (snd (blockio_write_partitiontable sys fd sizes))))
             \<and> read_little32from16 buf (startsector_offset 0) = blkstart cfg + RESERVED_SECTORS"
    if "length sizes = 4" and "resolved ! 0 \<noteq> 0"
  proof -
    have len: "length resolved = 4"
      using sizing_pass_length [OF assms(3)] that(1) by simp
    have "read_little32from16 (build_mbr cfg resolved) (startsector_offset 0)
        = blkstart cfg + RESERVED_SECTORS"
      using build_mbr_entry [of 0 resolved cfg] len that(2) by simp
    moreover have "Write_sectors (build_mbr cfg resolved) 0 1 \<in> set (calls_made sys
                    (snd (snd (blockio_write_partitiontable sys fd sizes))))"
      using write_partitiontable_lbas(2) [OF assms(1-3)] by auto
    ultimately show ?thesis by blast
  qed
  from w p s e show ?thesis
    by auto
qed

theorem mbr_sector_addresses_witness:
  "devctl_impl (ramdisk_system cfg_layered blank_disk) 0 = Some ramdisk_impl
   \<and> devctl_cfg (ramdisk_system cfg_layered blank_disk) 0 = Some cfg_layered
   \<and> sizing_pass cfg_layered [10, 0, 0, 0] = Inr ([20480, 0, 0, 0], 1028095)
   \<and> (1 :: int) \<le> 2 \<and> (2 :: int) \<le> 4
   \<and> Some (7 :: 32 word) \<noteq> None \<and> Some (9 :: 32 word) \<noteq> None
   \<and> length [10, 0, 0, 0 :: 32 word] = 4 \<and> [20480, 0, 0, 0 :: 32 word] ! 0 \<noteq> 0
   \<and> set (sector_lbas (calls_made (ramdisk_system cfg_layered blank_disk)
         (snd (snd (blockio_write_partitiontable (ramdisk_system cfg_layered blank_disk) 0
            [10, 0, 0, 0]))))) = {0}
   \<and> set (sector_lbas (calls_made (ramdisk_system cfg_layered blank_disk)
         (snd (blockio_write_partitiontype (ramdisk_system cfg_layered blank_disk) 0 2 0x83))))
       = {64}
   \<and> set (sector_lbas (calls_made (ramdisk_system cfg_layered blank_disk)
         (snd (snd (snd (blockio_select_partition (ramdisk_system cfg_layered blank_disk) 0 2
            (Some 7) (Some 9))))))) = {64}
   \<and> (\<exists>buf. Write_sectors buf 0 1 \<in> set (calls_made (ramdisk_system cfg_layered blank_disk)
                    (snd (snd (blockio_write_partitiontable (ramdisk_system cfg_layered blank_disk)
                       0 [10, 0, 0, 0]))))
          \<and> read_little32from16 buf (startsector_offset 0) = 65)"
proof -
  let ?S = "ramdisk_system cfg_layered blank_disk"
  have a: "devctl_impl ?S 0 = Some ramdisk_impl" and b: "devctl_cfg ?S 0 = Some cfg_layered"
    by (simp_all add: ramdisk_system_def)
  have c: "sizing_pass cfg_layered [10, 0, 0, 0] = Inr ([20480, 0, 0, 0], 1028095)"
    by (simp add: sizing_eval cfg_layered_def)
  have d: "(1 :: int) \<le> 2" "(2 :: int) \<le> 4" "Some (7 :: 32 word) \<noteq> None"
      "Some (9 :: 32 word) \<noteq> None"
    by simp_all
  have e: "length [10, 0, 0, 0 :: 32 word] = 4" "[20480, 0, 0, 0 :: 32 word] ! 0 \<noteq> 0"
    by simp_all
  have f: "blkstart cfg_layered = 64" "64 + RESERVED_SECTORS = 65"
    by (simp_all add: cfg_layered_def RESERVED_SECTORS_def)
  from mbr_sector_addresses [OF a b c d, of "0x83", unfolded f] a b c d e show ?thesis
    by simp
qed

end
